theory Spec2Isabelle
  imports Main "HOL-Library.Word"
begin

unbundle bit_operations_syntax

section \<open>Allwinner H3 SD host controller: machine types\<close>

text \<open>
  A shallow embedding of \<open>hw/sd/allwinner-h3-sdhost.c\<close>. Every function of the
  device model is a function on the device state; the functions that touch guest memory
  take and return it as well. Calls that only trace or log (\<open>trace_*\<close>,
  \<open>qemu_log_mask\<close>) change nothing and are left out.
\<close>

type_synonym u8 = "8 word"
type_synonym u32 = "32 word"
type_synonym u64 = "64 word"

text \<open>\<open>hwaddr\<close> is \<open>uint64_t\<close> in the emulator.\<close>

type_synonym hwaddr = "64 word"

section \<open>Register offsets and flags (hw/sd/allwinner-h3-sdhost.c, lines 33-158)\<close>

definition REG_SD_GCTL :: hwaddr where [simp]: "REG_SD_GCTL = 0x00"
definition REG_SD_CKCR :: hwaddr where [simp]: "REG_SD_CKCR = 0x04"
definition REG_SD_TMOR :: hwaddr where [simp]: "REG_SD_TMOR = 0x08"
definition REG_SD_BWDR :: hwaddr where [simp]: "REG_SD_BWDR = 0x0C"
definition REG_SD_BKSR :: hwaddr where [simp]: "REG_SD_BKSR = 0x10"
definition REG_SD_BYCR :: hwaddr where [simp]: "REG_SD_BYCR = 0x14"
definition REG_SD_CMDR :: hwaddr where [simp]: "REG_SD_CMDR = 0x18"
definition REG_SD_CAGR :: hwaddr where [simp]: "REG_SD_CAGR = 0x1C"
definition REG_SD_RESP0 :: hwaddr where [simp]: "REG_SD_RESP0 = 0x20"
definition REG_SD_RESP1 :: hwaddr where [simp]: "REG_SD_RESP1 = 0x24"
definition REG_SD_RESP2 :: hwaddr where [simp]: "REG_SD_RESP2 = 0x28"
definition REG_SD_RESP3 :: hwaddr where [simp]: "REG_SD_RESP3 = 0x2C"
definition REG_SD_IMKR :: hwaddr where [simp]: "REG_SD_IMKR = 0x30"
definition REG_SD_MISR :: hwaddr where [simp]: "REG_SD_MISR = 0x34"
definition REG_SD_RISR :: hwaddr where [simp]: "REG_SD_RISR = 0x38"
definition REG_SD_STAR :: hwaddr where [simp]: "REG_SD_STAR = 0x3C"
definition REG_SD_FWLR :: hwaddr where [simp]: "REG_SD_FWLR = 0x40"
definition REG_SD_FUNS :: hwaddr where [simp]: "REG_SD_FUNS = 0x44"
definition REG_SD_DBGC :: hwaddr where [simp]: "REG_SD_DBGC = 0x50"
definition REG_SD_A12A :: hwaddr where [simp]: "REG_SD_A12A = 0x58"
definition REG_SD_NTSR :: hwaddr where [simp]: "REG_SD_NTSR = 0x5C"
definition REG_SD_SDBG :: hwaddr where [simp]: "REG_SD_SDBG = 0x60"
definition REG_SD_HWRST :: hwaddr where [simp]: "REG_SD_HWRST = 0x78"
definition REG_SD_DMAC :: hwaddr where [simp]: "REG_SD_DMAC = 0x80"
definition REG_SD_DLBA :: hwaddr where [simp]: "REG_SD_DLBA = 0x84"
definition REG_SD_IDST :: hwaddr where [simp]: "REG_SD_IDST = 0x88"
definition REG_SD_IDIE :: hwaddr where [simp]: "REG_SD_IDIE = 0x8C"
definition REG_SD_THLDC :: hwaddr where [simp]: "REG_SD_THLDC = 0x100"
definition REG_SD_DSBD :: hwaddr where [simp]: "REG_SD_DSBD = 0x10C"
definition REG_SD_RES_CRC :: hwaddr where [simp]: "REG_SD_RES_CRC = 0x110"
definition REG_SD_DATA7_CRC :: hwaddr where [simp]: "REG_SD_DATA7_CRC = 0x114"
definition REG_SD_DATA6_CRC :: hwaddr where [simp]: "REG_SD_DATA6_CRC = 0x118"
definition REG_SD_DATA5_CRC :: hwaddr where [simp]: "REG_SD_DATA5_CRC = 0x11C"
definition REG_SD_DATA4_CRC :: hwaddr where [simp]: "REG_SD_DATA4_CRC = 0x120"
definition REG_SD_DATA3_CRC :: hwaddr where [simp]: "REG_SD_DATA3_CRC = 0x124"
definition REG_SD_DATA2_CRC :: hwaddr where [simp]: "REG_SD_DATA2_CRC = 0x128"
definition REG_SD_DATA1_CRC :: hwaddr where [simp]: "REG_SD_DATA1_CRC = 0x12C"
definition REG_SD_DATA0_CRC :: hwaddr where [simp]: "REG_SD_DATA0_CRC = 0x130"
definition REG_SD_CRC_STA :: hwaddr where [simp]: "REG_SD_CRC_STA = 0x134"
definition REG_SD_FIFO :: hwaddr where [simp]: "REG_SD_FIFO = 0x200"

text \<open>Flags; the comment gives the source's shift expression.\<close>

definition SD_GCTL_DMA_ENB :: u32 where [simp]: "SD_GCTL_DMA_ENB = 0x20" \<comment> \<open>\<open>1 << 5\<close>\<close>
definition SD_GCTL_INT_ENB :: u32 where [simp]: "SD_GCTL_INT_ENB = 0x10" \<comment> \<open>\<open>1 << 4\<close>\<close>
definition SD_GCTL_DMA_RST :: u32 where [simp]: "SD_GCTL_DMA_RST = 0x4" \<comment> \<open>\<open>1 << 2\<close>\<close>
definition SD_GCTL_FIFO_RST :: u32 where [simp]: "SD_GCTL_FIFO_RST = 0x2" \<comment> \<open>\<open>1 << 1\<close>\<close>
definition SD_GCTL_SOFT_RST :: u32 where [simp]: "SD_GCTL_SOFT_RST = 0x1" \<comment> \<open>\<open>1 << 0\<close>\<close>

definition SD_CMDR_LOAD :: u32 where [simp]: "SD_CMDR_LOAD = 0x80000000" \<comment> \<open>\<open>1 << 31\<close>\<close>
definition SD_CMDR_CLKCHANGE :: u32 where [simp]: "SD_CMDR_CLKCHANGE = 0x200000" \<comment> \<open>\<open>1 << 21\<close>\<close>
definition SD_CMDR_WRITE :: u32 where [simp]: "SD_CMDR_WRITE = 0x400" \<comment> \<open>\<open>1 << 10\<close>\<close>
definition SD_CMDR_AUTOSTOP :: u32 where [simp]: "SD_CMDR_AUTOSTOP = 0x1000" \<comment> \<open>\<open>1 << 12\<close>\<close>
definition SD_CMDR_DATA :: u32 where [simp]: "SD_CMDR_DATA = 0x200" \<comment> \<open>\<open>1 << 9\<close>\<close>
definition SD_CMDR_RESPONSE_LONG :: u32 where [simp]: "SD_CMDR_RESPONSE_LONG = 0x80" \<comment> \<open>\<open>1 << 7\<close>\<close>
definition SD_CMDR_RESPONSE :: u32 where [simp]: "SD_CMDR_RESPONSE = 0x40" \<comment> \<open>\<open>1 << 6\<close>\<close>
definition SD_CMDR_CMDID_MASK :: u32 where [simp]: "SD_CMDR_CMDID_MASK = 0x3f"

definition SD_RISR_CARD_REMOVE :: u32 where [simp]: "SD_RISR_CARD_REMOVE = 0x80000000" \<comment> \<open>\<open>1 << 31\<close>\<close>
definition SD_RISR_CARD_INSERT :: u32 where [simp]: "SD_RISR_CARD_INSERT = 0x40000000" \<comment> \<open>\<open>1 << 30\<close>\<close>
definition SD_RISR_AUTOCMD_DONE :: u32 where [simp]: "SD_RISR_AUTOCMD_DONE = 0x4000" \<comment> \<open>\<open>1 << 14\<close>\<close>
definition SD_RISR_DATA_COMPLETE :: u32 where [simp]: "SD_RISR_DATA_COMPLETE = 0x8" \<comment> \<open>\<open>1 << 3\<close>\<close>
definition SD_RISR_CMD_COMPLETE :: u32 where [simp]: "SD_RISR_CMD_COMPLETE = 0x4" \<comment> \<open>\<open>1 << 2\<close>\<close>
definition SD_RISR_NO_RESPONSE :: u32 where [simp]: "SD_RISR_NO_RESPONSE = 0x2" \<comment> \<open>\<open>1 << 1\<close>\<close>

definition SD_STAR_CARD_PRESENT :: u32 where [simp]: "SD_STAR_CARD_PRESENT = 0x100" \<comment> \<open>\<open>1 << 8\<close>\<close>

definition SD_IDST_SUM_RECEIVE_IRQ :: u32 where [simp]: "SD_IDST_SUM_RECEIVE_IRQ = 0x100" \<comment> \<open>\<open>1 << 8\<close>\<close>
definition SD_IDST_RECEIVE_IRQ :: u32 where [simp]: "SD_IDST_RECEIVE_IRQ = 0x2" \<comment> \<open>\<open>1 << 1\<close>\<close>
definition SD_IDST_TRANSMIT_IRQ :: u32 where [simp]: "SD_IDST_TRANSMIT_IRQ = 0x1" \<comment> \<open>\<open>1 << 0\<close>\<close>
definition SD_IDST_WR_MASK :: u32 where [simp]: "SD_IDST_WR_MASK = 0x3ff"

definition DESC_STATUS_HOLD :: u32 where [simp]: "DESC_STATUS_HOLD = 0x80000000" \<comment> \<open>\<open>1 << 31\<close>\<close>
definition DESC_STATUS_ERROR :: u32 where [simp]: "DESC_STATUS_ERROR = 0x40000000" \<comment> \<open>\<open>1 << 30\<close>\<close>
definition DESC_STATUS_CHAIN :: u32 where [simp]: "DESC_STATUS_CHAIN = 0x10" \<comment> \<open>\<open>1 << 4\<close>\<close>
definition DESC_STATUS_FIRST :: u32 where [simp]: "DESC_STATUS_FIRST = 0x8" \<comment> \<open>\<open>1 << 3\<close>\<close>
definition DESC_STATUS_LAST :: u32 where [simp]: "DESC_STATUS_LAST = 0x4" \<comment> \<open>\<open>1 << 2\<close>\<close>
definition DESC_STATUS_NOIRQ :: u32 where [simp]: "DESC_STATUS_NOIRQ = 0x2" \<comment> \<open>\<open>1 << 1\<close>\<close>
definition DESC_SIZE_MASK :: u32 where [simp]: "DESC_SIZE_MASK = 0xfffffffc"

text \<open>Register reset values.\<close>

definition REG_SD_GCTL_RST :: u32 where [simp]: "REG_SD_GCTL_RST = 0x00000300"
definition REG_SD_CKCR_RST :: u32 where [simp]: "REG_SD_CKCR_RST = 0x0"
definition REG_SD_TMOR_RST :: u32 where [simp]: "REG_SD_TMOR_RST = 0xFFFFFF40"
definition REG_SD_BWDR_RST :: u32 where [simp]: "REG_SD_BWDR_RST = 0x0"
definition REG_SD_BKSR_RST :: u32 where [simp]: "REG_SD_BKSR_RST = 0x00000200"
definition REG_SD_BYCR_RST :: u32 where [simp]: "REG_SD_BYCR_RST = 0x00000200"
definition REG_SD_CMDR_RST :: u32 where [simp]: "REG_SD_CMDR_RST = 0x0"
definition REG_SD_CAGR_RST :: u32 where [simp]: "REG_SD_CAGR_RST = 0x0"
definition REG_SD_RESP_RST :: u32 where [simp]: "REG_SD_RESP_RST = 0x0"
definition REG_SD_IMKR_RST :: u32 where [simp]: "REG_SD_IMKR_RST = 0x0"
definition REG_SD_MISR_RST :: u32 where [simp]: "REG_SD_MISR_RST = 0x0"
definition REG_SD_RISR_RST :: u32 where [simp]: "REG_SD_RISR_RST = 0x0"
definition REG_SD_STAR_RST :: u32 where [simp]: "REG_SD_STAR_RST = 0x00000100"
definition REG_SD_FWLR_RST :: u32 where [simp]: "REG_SD_FWLR_RST = 0x000F0000"
definition REG_SD_FUNS_RST :: u32 where [simp]: "REG_SD_FUNS_RST = 0x0"
definition REG_SD_DBGC_RST :: u32 where [simp]: "REG_SD_DBGC_RST = 0x0"
definition REG_SD_A12A_RST :: u32 where [simp]: "REG_SD_A12A_RST = 0x0000FFFF"
definition REG_SD_NTSR_RST :: u32 where [simp]: "REG_SD_NTSR_RST = 0x00000001"
definition REG_SD_SDBG_RST :: u32 where [simp]: "REG_SD_SDBG_RST = 0x0"
definition REG_SD_HWRST_RST :: u32 where [simp]: "REG_SD_HWRST_RST = 0x00000001"
definition REG_SD_DMAC_RST :: u32 where [simp]: "REG_SD_DMAC_RST = 0x0"
definition REG_SD_DLBA_RST :: u32 where [simp]: "REG_SD_DLBA_RST = 0x0"
definition REG_SD_IDST_RST :: u32 where [simp]: "REG_SD_IDST_RST = 0x0"
definition REG_SD_IDIE_RST :: u32 where [simp]: "REG_SD_IDIE_RST = 0x0"
definition REG_SD_THLDC_RST :: u32 where [simp]: "REG_SD_THLDC_RST = 0x0"
definition REG_SD_DSBD_RST :: u32 where [simp]: "REG_SD_DSBD_RST = 0x0"
definition REG_SD_RES_CRC_RST :: u32 where [simp]: "REG_SD_RES_CRC_RST = 0x0"
definition REG_SD_DATA_CRC_RST :: u32 where [simp]: "REG_SD_DATA_CRC_RST = 0x0"
definition REG_SD_CRC_STA_RST :: u32 where [simp]: "REG_SD_CRC_STA_RST = 0x0"

section \<open>The SD bus, as the device sees it\<close>

text \<open>
  Modelled from the spec: the SD bus (the CBI of the specification: submit, data-ready,
  read-byte, write-byte), whose code is not part of the device. The device calls
  \<open>sdbus_do_command\<close>, \<open>sdbus_data_ready\<close>, \<open>sdbus_read_data\<close> and
  \<open>sdbus_write_data\<close>. The model keeps the sequence of state-changing calls made so
  far (the field \<open>sdbus\<close> of the device state) and takes the card as a parameter: what
  the card answers is an arbitrary function of that history, so every theorem holds for
  every deterministic card.
\<close>

record SDRequest =
  cmd :: u8
  arg :: u32

datatype sd_call = DoCommand SDRequest | ReadData | WriteData u8

text \<open>
  The answer to a command is the \<open>int\<close> that \<open>sdbus_do_command\<close> returns and the
  contents of the 16-byte buffer \<open>resp\<close> after the call, indexed from 0.
\<close>

record sd_card =
  card_do_command :: "sd_call list \<Rightarrow> SDRequest \<Rightarrow> int \<times> (nat \<Rightarrow> u8)"
  card_data_ready :: "sd_call list \<Rightarrow> bool"
  card_read_data :: "sd_call list \<Rightarrow> u8"

definition sdbus_do_command ::
  "sd_card \<Rightarrow> sd_call list \<Rightarrow> SDRequest \<Rightarrow> (int \<times> (nat \<Rightarrow> u8)) \<times> sd_call list" where
  "sdbus_do_command sd bus request =
     (card_do_command sd bus request, bus @ [DoCommand request])"

definition sdbus_data_ready :: "sd_card \<Rightarrow> sd_call list \<Rightarrow> bool" where
  "sdbus_data_ready sd bus = card_data_ready sd bus"

definition sdbus_read_data :: "sd_card \<Rightarrow> sd_call list \<Rightarrow> u8 \<times> sd_call list" where
  "sdbus_read_data sd bus = (card_read_data sd bus, bus @ [ReadData])"

definition sdbus_write_data :: "sd_call list \<Rightarrow> u8 \<Rightarrow> sd_call list" where
  "sdbus_write_data bus b = bus @ [WriteData b]"

text \<open>
  Modelled from the spec: \<open>ldl_be_p\<close>, the emulator's big-endian 32-bit load
  (\<open>big-endian-u32(resp[i..i+4])\<close>), applied to the buffer at index \<open>i\<close>.
\<close>

definition ldl_be_p :: "(nat \<Rightarrow> u8) \<Rightarrow> nat \<Rightarrow> u32" where
  "ldl_be_p resp i =
     push_bit 24 (ucast (resp i)) OR push_bit 16 (ucast (resp (i + 1)))
       OR push_bit 8 (ucast (resp (i + 2))) OR ucast (resp (i + 3))"

section \<open>Device state (the fields the code reads and writes)\<close>

text \<open>
  The fields are those that the code uses and that \<open>vmstate_aw_h3_sdhost\<close> lists, all
  \<open>uint32_t\<close>. The arrays \<open>response[4]\<close> and \<open>data_crc[8]\<close> are functions of the
  index; the code only uses constant indices inside the bounds. \<open>irq\<close> is the level last
  given to \<open>qemu_set_irq\<close>; \<open>sdbus\<close> is the history of bus calls.
\<close>

record AwH3SDHostState =
  global_ctl :: u32
  clock_ctl :: u32
  timeout :: u32
  bus_width :: u32
  block_size :: u32
  byte_count :: u32
  transfer_cnt :: u32
  command :: u32
  command_arg :: u32
  response :: "nat \<Rightarrow> u32"
  irq_mask :: u32
  irq_status :: u32
  status :: u32
  fifo_wlevel :: u32
  fifo_func_sel :: u32
  debug_enable :: u32
  auto12_arg :: u32
  newtiming_set :: u32
  newtiming_debug :: u32
  hardware_rst :: u32
  dmac :: u32
  desc_base :: u32
  dmac_status :: u32
  dmac_irq :: u32
  card_threshold :: u32
  startbit_detect :: u32
  response_crc :: u32
  data_crc :: "nat \<Rightarrow> u32"
  status_crc :: u32
  irq :: u32
  sdbus :: "sd_call list"

section \<open>Interrupt line and transfer counter\<close>

definition aw_h3_sdhost_update_irq :: "AwH3SDHostState \<Rightarrow> AwH3SDHostState" where
  "aw_h3_sdhost_update_irq s =
     (let irq_en = global_ctl s AND SD_GCTL_INT_ENB;
          irq' = (if irq_en \<noteq> 0 then irq_status s AND irq_mask s else 0)
      in s\<lparr>irq := irq'\<rparr>)"

definition aw_h3_sdhost_update_transfer_cnt ::
  "AwH3SDHostState \<Rightarrow> u32 \<Rightarrow> AwH3SDHostState" where
  "aw_h3_sdhost_update_transfer_cnt s bytes =
     (let s1 = (if transfer_cnt s > bytes
                then s\<lparr>transfer_cnt := transfer_cnt s - bytes\<rparr>
                else s\<lparr>transfer_cnt := 0\<rparr>)
      in if transfer_cnt s1 = 0
         then s1\<lparr>irq_status := irq_status s1 OR (SD_RISR_DATA_COMPLETE OR SD_RISR_AUTOCMD_DONE)\<rparr>
         else s1)"

definition aw_h3_sdhost_set_inserted :: "AwH3SDHostState \<Rightarrow> bool \<Rightarrow> AwH3SDHostState" where
  "aw_h3_sdhost_set_inserted s inserted =
     aw_h3_sdhost_update_irq
       (if inserted
        then s\<lparr>irq_status := (irq_status s OR SD_RISR_CARD_INSERT) AND NOT SD_RISR_CARD_REMOVE,
               status := status s OR SD_STAR_CARD_PRESENT\<rparr>
        else s\<lparr>irq_status := (irq_status s AND NOT SD_RISR_CARD_INSERT) OR SD_RISR_CARD_REMOVE,
               status := status s AND NOT SD_STAR_CARD_PRESENT\<rparr>)"

section \<open>Command engine\<close>

text \<open>
  \<open>aw_h3_sdhost_send_command\<close>: the label \<open>error\<close> is the branch that sets
  \<open>SD_RISR_NO_RESPONSE\<close> and nothing else.
\<close>

definition aw_h3_sdhost_send_command :: "sd_card \<Rightarrow> AwH3SDHostState \<Rightarrow> AwH3SDHostState" where
  "aw_h3_sdhost_send_command sd s0 =
     (let s = s0\<lparr>command := command s0 AND NOT SD_CMDR_LOAD\<rparr>
      in if command s AND SD_CMDR_CLKCHANGE = 0 then
           (let request = \<lparr>cmd = ucast (command s AND SD_CMDR_CMDID_MASK), arg = command_arg s\<rparr>;
                ((rlen, resp), bus') = sdbus_do_command sd (sdbus s) request;
                s1 = s\<lparr>sdbus := bus'\<rparr>;
                error = s1\<lparr>irq_status := irq_status s1 OR SD_RISR_NO_RESPONSE\<rparr>
            in if rlen < 0 then error
               else if command s1 AND SD_CMDR_RESPONSE \<noteq> 0 then
                 (if rlen = 0 \<or> (rlen = 4 \<and> command s1 AND SD_CMDR_RESPONSE_LONG \<noteq> 0)
                  then error
                  else if rlen \<noteq> 4 \<and> rlen \<noteq> 16 then error
                  else if rlen = 4 then
                    (let s2 = s1\<lparr>response := (response s1)(0 := ldl_be_p resp 0)\<rparr>;
                         s3 = s2\<lparr>response := (response s2)(3 := 0)\<rparr>;
                         s4 = s3\<lparr>response := (response s3)(2 := response s3 3)\<rparr>;
                         s5 = s4\<lparr>response := (response s4)(1 := response s4 2)\<rparr>
                     in s5\<lparr>irq_status := irq_status s5 OR SD_RISR_CMD_COMPLETE\<rparr>)
                  else
                    (let s2 = s1\<lparr>response := (response s1)(0 := ldl_be_p resp 12)\<rparr>;
                         s3 = s2\<lparr>response := (response s2)(1 := ldl_be_p resp 8)\<rparr>;
                         s4 = s3\<lparr>response := (response s3)(2 := ldl_be_p resp 4)\<rparr>;
                         s5 = s4\<lparr>response := (response s4)(3 := ldl_be_p resp 0)\<rparr>
                     in s5\<lparr>irq_status := irq_status s5 OR SD_RISR_CMD_COMPLETE\<rparr>))
               else s1\<lparr>irq_status := irq_status s1 OR SD_RISR_CMD_COMPLETE\<rparr>)
         else s\<lparr>irq_status := irq_status s OR SD_RISR_CMD_COMPLETE\<rparr>)"

definition aw_h3_sdhost_auto_stop :: "sd_card \<Rightarrow> AwH3SDHostState \<Rightarrow> AwH3SDHostState" where
  "aw_h3_sdhost_auto_stop sd s =
     (if command s AND SD_CMDR_AUTOSTOP \<noteq> 0 \<and> transfer_cnt s = 0 then
        (let saved_cmd = command s;
             saved_arg = command_arg s;
             s1 = s\<lparr>command := command s AND NOT SD_CMDR_CMDID_MASK\<rparr>;
             s2 = s1\<lparr>command := command s1 OR 12\<rparr>;
             s3 = s2\<lparr>command_arg := 0\<rparr>;
             s4 = aw_h3_sdhost_send_command sd s3
         in s4\<lparr>command := saved_cmd, command_arg := saved_arg\<rparr>)
      else s)"

section \<open>Guest memory and transfer descriptors\<close>

text \<open>
  Modelled from the spec: the platform's guest-memory primitives. Guest-physical memory
  is a flat array of bytes indexed by \<open>hwaddr\<close>; \<open>cpu_physical_memory_read\<close> copies
  \<open>len\<close> bytes out of it, \<open>cpu_physical_memory_write\<close> copies a buffer into it,
  lowest address first. Memory-mapped devices behind guest addresses are not modelled.
\<close>

type_synonym guest_mem = "hwaddr \<Rightarrow> u8"

definition cpu_physical_memory_read :: "guest_mem \<Rightarrow> hwaddr \<Rightarrow> nat \<Rightarrow> u8 list" where
  "cpu_physical_memory_read ram a len = map (\<lambda>i. ram (a + of_nat i)) [0..<len]"

primrec cpu_physical_memory_write :: "hwaddr \<Rightarrow> u8 list \<Rightarrow> guest_mem \<Rightarrow> guest_mem" where
  "cpu_physical_memory_write a [] ram = ram"
| "cpu_physical_memory_write a (b # bs) ram = cpu_physical_memory_write (a + 1) bs (ram(a := b))"

record TransferDescriptor =
  dstatus :: u32
  dsize :: u32
  daddr :: u32
  dnext :: u32

text \<open>
  The fields of \<open>TransferDescriptor\<close> are \<open>status\<close>, \<open>size\<close>, \<open>addr\<close> and
  \<open>next\<close> in the source; they carry a \<open>d\<close> here to keep them apart from the
  device's \<open>status\<close> and from the \<open>size\<close> of the library. The descriptor is copied
  to and from guest memory as a little-endian host lays the struct out: four 32-bit
  fields in this order, each little-endian.
\<close>

definition le32 :: "u8 list \<Rightarrow> u32" where
  "le32 bs = foldr (\<lambda>b acc. ucast b OR push_bit 8 acc) bs 0"

definition le32_bytes :: "u32 \<Rightarrow> u8 list" where
  "le32_bytes w = [ucast w, ucast (drop_bit 8 w), ucast (drop_bit 16 w), ucast (drop_bit 24 w)]"

definition desc_of_bytes :: "u8 list \<Rightarrow> TransferDescriptor" where
  "desc_of_bytes bs =
     \<lparr>dstatus = le32 (take 4 bs), dsize = le32 (take 4 (drop 4 bs)),
      daddr = le32 (take 4 (drop 8 bs)), dnext = le32 (take 4 (drop 12 bs))\<rparr>"

definition bytes_of_desc :: "TransferDescriptor \<Rightarrow> u8 list" where
  "bytes_of_desc d =
     le32_bytes (dstatus d) @ le32_bytes (dsize d) @ le32_bytes (daddr d) @ le32_bytes (dnext d)"

section \<open>DMA descriptor engine\<close>

text \<open>The \<open>for\<close> loop that fills \<open>buf\<close> from the bus, one \<open>sdbus_read_data\<close> per byte.\<close>

primrec sdbus_read_buf :: "sd_card \<Rightarrow> nat \<Rightarrow> sd_call list \<Rightarrow> u8 list \<times> sd_call list" where
  "sdbus_read_buf sd 0 bus = ([], bus)"
| "sdbus_read_buf sd (Suc n) bus =
     (let (b, bus1) = sdbus_read_data sd bus;
          (bs, bus2) = sdbus_read_buf sd n bus1
      in (b # bs, bus2))"

text \<open>
  The \<open>while (num_done < num_bytes)\<close> loop of \<open>aw_h3_sdhost_process_desc\<close>, with the
  local buffer of 1024 bytes. The buffer address is computed in 32 bits and then widened.
\<close>

function process_desc_loop ::
  "sd_card \<Rightarrow> bool \<Rightarrow> TransferDescriptor \<Rightarrow> u32 \<Rightarrow> u32 \<Rightarrow> sd_call list \<Rightarrow> guest_mem
     \<Rightarrow> u32 \<times> sd_call list \<times> guest_mem" where
  "process_desc_loop sd is_write desc num_bytes num_done bus ram =
     (if num_done < num_bytes then
        (let buf_bytes = (if num_bytes - num_done > 1024 then 1024 else num_bytes - num_done);
             a = (ucast ((daddr desc AND DESC_SIZE_MASK) + num_done) :: hwaddr)
         in if is_write then
              (let buf = cpu_physical_memory_read ram a (unat buf_bytes);
                   bus' = foldl sdbus_write_data bus buf
               in process_desc_loop sd is_write desc num_bytes (num_done + buf_bytes) bus' ram)
            else
              (let r = sdbus_read_buf sd (unat buf_bytes) bus;
                   ram' = cpu_physical_memory_write a (fst r) ram
               in process_desc_loop sd is_write desc num_bytes (num_done + buf_bytes) (snd r) ram'))
      else (num_done, bus, ram))"
  by pat_completeness auto

termination process_desc_loop
  apply (relation "measure (\<lambda>(sd, is_write, desc, num_bytes, num_done, bus, ram).
                              unat num_bytes - unat num_done)")
  subgoal by simp
  subgoal for sd is_write desc num_bytes num_done
    by (cases "1024 < num_bytes - num_done"; simp; unat_arith)
  subgoal for sd is_write desc num_bytes num_done
    by (cases "1024 < num_bytes - num_done"; simp; unat_arith)
  done

declare process_desc_loop.simps [simp del]

text \<open>
  \<open>aw_h3_sdhost_process_desc\<close> returns \<open>num_done\<close>, the descriptor it leaves in
  \<open>*desc\<close>, the device state and guest memory.
\<close>

definition aw_h3_sdhost_process_desc ::
  "sd_card \<Rightarrow> AwH3SDHostState \<Rightarrow> guest_mem \<Rightarrow> hwaddr \<Rightarrow> bool \<Rightarrow> u32
     \<Rightarrow> u32 \<times> TransferDescriptor \<times> AwH3SDHostState \<times> guest_mem" where
  "aw_h3_sdhost_process_desc sd s ram desc_addr is_write max_bytes =
     (let desc0 = desc_of_bytes (cpu_physical_memory_read ram desc_addr 16);
          desc1 = (if dsize desc0 = 0 then desc0\<lparr>dsize := 0xffff + 1\<rparr> else desc0);
          num_bytes = (if dsize desc1 < max_bytes then dsize desc1 else max_bytes);
          r = process_desc_loop sd is_write desc1 num_bytes 0 (sdbus s) ram;
          desc2 = desc1\<lparr>dstatus := dstatus desc1 AND NOT DESC_STATUS_HOLD\<rparr>;
          ram2 = cpu_physical_memory_write desc_addr (bytes_of_desc desc2) (snd (snd r))
      in (fst r, desc2, s\<lparr>sdbus := fst (snd r)\<rparr>, ram2))"

text \<open>
  One pass through the body of the \<open>while (s->byte_count > 0)\<close> loop of
  \<open>aw_h3_sdhost_dma\<close>, up to the test of \<open>DESC_STATUS_LAST\<close>: the descriptor
  processed, the device state and guest memory.
\<close>

definition dma_loop_body ::
  "sd_card \<Rightarrow> bool \<Rightarrow> hwaddr \<Rightarrow> AwH3SDHostState \<Rightarrow> guest_mem
     \<Rightarrow> TransferDescriptor \<times> AwH3SDHostState \<times> guest_mem" where
  "dma_loop_body sd is_write desc_addr s ram =
     (let r = aw_h3_sdhost_process_desc sd s ram desc_addr is_write (byte_count s);
          bytes_done = fst r;
          desc = fst (snd r);
          s1 = aw_h3_sdhost_update_transfer_cnt (fst (snd (snd r))) bytes_done;
          s2 = (if bytes_done \<le> byte_count s1
                then s1\<lparr>byte_count := byte_count s1 - bytes_done\<rparr>
                else s1\<lparr>byte_count := 0\<rparr>)
      in (desc, s2, snd (snd (snd r))))"

text \<open>
  The loop itself. Nothing in its text bounds the number of descriptors, so it is a
  partial function: \<open>None\<close> is a walk that never ends.
\<close>

partial_function (option) dma_loop ::
  "sd_card \<Rightarrow> bool \<Rightarrow> hwaddr \<Rightarrow> AwH3SDHostState \<Rightarrow> guest_mem
     \<Rightarrow> (AwH3SDHostState \<times> guest_mem) option" where
  "dma_loop sd is_write desc_addr s ram =
     (if byte_count s > 0 then
        (let b = dma_loop_body sd is_write desc_addr s ram
         in if dstatus (fst b) AND DESC_STATUS_LAST \<noteq> 0
            then Some (snd b)
            else dma_loop sd is_write (ucast (dnext (fst b))) (fst (snd b)) (snd (snd b)))
      else Some (s, ram))"

declare dma_loop.simps [code]

definition aw_h3_sdhost_dma ::
  "sd_card \<Rightarrow> AwH3SDHostState \<Rightarrow> guest_mem \<Rightarrow> (AwH3SDHostState \<times> guest_mem) option" where
  "aw_h3_sdhost_dma sd s ram =
     (let desc_addr = (ucast (desc_base s) :: hwaddr);
          is_write = (command s AND SD_CMDR_WRITE \<noteq> 0)
      in if byte_count s = 0 \<or> block_size s = 0 \<or> global_ctl s AND SD_GCTL_DMA_ENB = 0
         then Some (s, ram)
         else if \<not> is_write \<and> \<not> sdbus_data_ready sd (sdbus s)
         then Some (s, ram)
         else
           (case dma_loop sd is_write desc_addr s ram of
              None \<Rightarrow> None
            | Some (s1, ram1) \<Rightarrow>
                (let s2 = s1\<lparr>irq_status := irq_status s1 OR
                                 (SD_RISR_DATA_COMPLETE OR SD_RISR_AUTOCMD_DONE)\<rparr>
                 in if is_write
                    then Some (s2\<lparr>dmac_status := dmac_status s2 OR SD_IDST_TRANSMIT_IRQ\<rparr>, ram1)
                    else Some (s2\<lparr>dmac_status := dmac_status s2 OR
                                   (SD_IDST_SUM_RECEIVE_IRQ OR SD_IDST_RECEIVE_IRQ)\<rparr>, ram1))))"

section \<open>MMIO read\<close>

text \<open>
  \<open>aw_h3_sdhost_read\<close> returns the value read and the device state; only the FIFO
  register changes the state. The access size is used for tracing only and is left out.
\<close>

definition aw_h3_sdhost_read ::
  "sd_card \<Rightarrow> AwH3SDHostState \<Rightarrow> hwaddr \<Rightarrow> u64 \<times> AwH3SDHostState" where
  "aw_h3_sdhost_read sd s offset =
     (let r =
       (if offset = REG_SD_GCTL then (global_ctl s, s)
        else if offset = REG_SD_CKCR then (clock_ctl s, s)
        else if offset = REG_SD_TMOR then (timeout s, s)
        else if offset = REG_SD_BWDR then (bus_width s, s)
        else if offset = REG_SD_BKSR then (block_size s, s)
        else if offset = REG_SD_BYCR then (byte_count s, s)
        else if offset = REG_SD_CMDR then (command s, s)
        else if offset = REG_SD_CAGR then (command_arg s, s)
        else if offset = REG_SD_RESP0 then (response s 0, s)
        else if offset = REG_SD_RESP1 then (response s 1, s)
        else if offset = REG_SD_RESP2 then (response s 2, s)
        else if offset = REG_SD_RESP3 then (response s 3, s)
        else if offset = REG_SD_IMKR then (irq_mask s, s)
        else if offset = REG_SD_MISR then (irq_status s AND irq_mask s, s)
        else if offset = REG_SD_RISR then (irq_status s, s)
        else if offset = REG_SD_STAR then (status s, s)
        else if offset = REG_SD_FWLR then (fifo_wlevel s, s)
        else if offset = REG_SD_FUNS then (fifo_func_sel s, s)
        else if offset = REG_SD_DBGC then (debug_enable s, s)
        else if offset = REG_SD_A12A then (auto12_arg s, s)
        else if offset = REG_SD_NTSR then (newtiming_set s, s)
        else if offset = REG_SD_SDBG then (newtiming_debug s, s)
        else if offset = REG_SD_HWRST then (hardware_rst s, s)
        else if offset = REG_SD_DMAC then (dmac s, s)
        else if offset = REG_SD_DLBA then (desc_base s, s)
        else if offset = REG_SD_IDST then (dmac_status s, s)
        else if offset = REG_SD_IDIE then (dmac_irq s, s)
        else if offset = REG_SD_THLDC then (card_threshold s, s)
        else if offset = REG_SD_DSBD then (startbit_detect s, s)
        else if offset = REG_SD_RES_CRC then (response_crc s, s)
        else if offset = REG_SD_DATA7_CRC \<or> offset = REG_SD_DATA6_CRC
              \<or> offset = REG_SD_DATA5_CRC \<or> offset = REG_SD_DATA4_CRC
              \<or> offset = REG_SD_DATA3_CRC \<or> offset = REG_SD_DATA2_CRC
              \<or> offset = REG_SD_DATA1_CRC \<or> offset = REG_SD_DATA0_CRC
          then (data_crc s (unat ((offset - REG_SD_DATA7_CRC) div 4)), s)
        else if offset = REG_SD_CRC_STA then (status_crc s, s)
        else if offset = REG_SD_FIFO then
          (if sdbus_data_ready sd (sdbus s) then
             (let r0 = sdbus_read_data sd (sdbus s);
                  r1 = sdbus_read_data sd (snd r0);
                  r2 = sdbus_read_data sd (snd r1);
                  r3 = sdbus_read_data sd (snd r2);
                  res = ucast (fst r0) OR push_bit 8 (ucast (fst r1))
                          OR push_bit 16 (ucast (fst r2)) OR push_bit 24 (ucast (fst r3));
                  s1 = aw_h3_sdhost_update_transfer_cnt (s\<lparr>sdbus := snd r3\<rparr>) 4;
                  s2 = aw_h3_sdhost_auto_stop sd s1
              in (res, aw_h3_sdhost_update_irq s2))
           else (0, s))
        else (0, s))
      in (ucast (fst r :: u32), snd r))"

section \<open>MMIO write\<close>

text \<open>
  \<open>value\<close> is a \<open>uint64_t\<close>; a store to a 32-bit field truncates it, and the
  compound assignments are computed in 64 bits and then truncated, as C's integer
  conversions make them. The flag macros are \<open>int\<close>s, so \<open>1 << 31\<close> and the
  complement of a mask are sign-extended when they meet \<open>value\<close>. The result is
  \<open>None\<close> when the DMA walk does not return.
\<close>

definition aw_h3_sdhost_write ::
  "sd_card \<Rightarrow> AwH3SDHostState \<Rightarrow> guest_mem \<Rightarrow> hwaddr \<Rightarrow> u64
     \<Rightarrow> (AwH3SDHostState \<times> guest_mem) option" where
  "aw_h3_sdhost_write sd s ram offset value =
     (if offset = REG_SD_GCTL then
        (let s1 = s\<lparr>global_ctl := ucast value\<rparr>;
             s2 = s1\<lparr>global_ctl := global_ctl s1 AND
                     NOT (SD_GCTL_DMA_RST OR SD_GCTL_FIFO_RST OR SD_GCTL_SOFT_RST)\<rparr>
         in Some (aw_h3_sdhost_update_irq s2, ram))
      else if offset = REG_SD_CKCR then Some (s\<lparr>clock_ctl := ucast value\<rparr>, ram)
      else if offset = REG_SD_TMOR then Some (s\<lparr>timeout := ucast value\<rparr>, ram)
      else if offset = REG_SD_BWDR then Some (s\<lparr>bus_width := ucast value\<rparr>, ram)
      else if offset = REG_SD_BKSR then Some (s\<lparr>block_size := ucast value\<rparr>, ram)
      else if offset = REG_SD_BYCR then
        Some (s\<lparr>byte_count := ucast value, transfer_cnt := ucast value\<rparr>, ram)
      else if offset = REG_SD_CMDR then
        (let s1 = s\<lparr>command := ucast value\<rparr>
         in if value AND scast SD_CMDR_LOAD \<noteq> 0 then
              (case aw_h3_sdhost_dma sd (aw_h3_sdhost_send_command sd s1) ram of
                 None \<Rightarrow> None
               | Some (s2, ram2) \<Rightarrow>
                   Some (aw_h3_sdhost_update_irq (aw_h3_sdhost_auto_stop sd s2), ram2))
            else Some (aw_h3_sdhost_update_irq s1, ram))
      else if offset = REG_SD_CAGR then Some (s\<lparr>command_arg := ucast value\<rparr>, ram)
      else if offset = REG_SD_RESP0 then
        Some (s\<lparr>response := (response s)(0 := ucast value)\<rparr>, ram)
      else if offset = REG_SD_RESP1 then
        Some (s\<lparr>response := (response s)(1 := ucast value)\<rparr>, ram)
      else if offset = REG_SD_RESP2 then
        Some (s\<lparr>response := (response s)(2 := ucast value)\<rparr>, ram)
      else if offset = REG_SD_RESP3 then
        Some (s\<lparr>response := (response s)(3 := ucast value)\<rparr>, ram)
      else if offset = REG_SD_IMKR then
        Some (aw_h3_sdhost_update_irq (s\<lparr>irq_mask := ucast value\<rparr>), ram)
      else if offset = REG_SD_MISR \<or> offset = REG_SD_RISR then
        Some (aw_h3_sdhost_update_irq
                (s\<lparr>irq_status := ucast ((ucast (irq_status s) :: u64) AND NOT value)\<rparr>), ram)
      else if offset = REG_SD_STAR then
        Some (aw_h3_sdhost_update_irq
                (s\<lparr>status := ucast ((ucast (status s) :: u64) AND NOT value)\<rparr>), ram)
      else if offset = REG_SD_FWLR then Some (s\<lparr>fifo_wlevel := ucast value\<rparr>, ram)
      else if offset = REG_SD_FUNS then Some (s\<lparr>fifo_func_sel := ucast value\<rparr>, ram)
      else if offset = REG_SD_DBGC then Some (s\<lparr>debug_enable := ucast value\<rparr>, ram)
      else if offset = REG_SD_A12A then Some (s\<lparr>auto12_arg := ucast value\<rparr>, ram)
      else if offset = REG_SD_NTSR then Some (s\<lparr>newtiming_set := ucast value\<rparr>, ram)
      else if offset = REG_SD_SDBG then Some (s\<lparr>newtiming_debug := ucast value\<rparr>, ram)
      else if offset = REG_SD_HWRST then Some (s\<lparr>hardware_rst := ucast value\<rparr>, ram)
      else if offset = REG_SD_DMAC then
        Some (aw_h3_sdhost_update_irq (s\<lparr>dmac := ucast value\<rparr>), ram)
      else if offset = REG_SD_DLBA then Some (s\<lparr>desc_base := ucast value\<rparr>, ram)
      else if offset = REG_SD_IDST then
        Some (aw_h3_sdhost_update_irq
                (s\<lparr>dmac_status :=
                     ucast ((ucast (dmac_status s) :: u64) AND
                            (scast (NOT SD_IDST_WR_MASK) OR
                             (NOT value AND ucast SD_IDST_WR_MASK)))\<rparr>), ram)
      else if offset = REG_SD_IDIE then
        Some (aw_h3_sdhost_update_irq (s\<lparr>dmac_irq := ucast value\<rparr>), ram)
      else if offset = REG_SD_THLDC then Some (s\<lparr>card_threshold := ucast value\<rparr>, ram)
      else if offset = REG_SD_DSBD then Some (s\<lparr>startbit_detect := ucast value\<rparr>, ram)
      else if offset = REG_SD_FIFO then
        (let b0 = sdbus_write_data (sdbus s) (ucast (value AND 0xff));
             b1 = sdbus_write_data b0 (ucast (drop_bit 8 value AND 0xff));
             b2 = sdbus_write_data b1 (ucast (drop_bit 16 value AND 0xff));
             b3 = sdbus_write_data b2 (ucast (drop_bit 24 value AND 0xff));
             s1 = aw_h3_sdhost_update_transfer_cnt (s\<lparr>sdbus := b3\<rparr>) 4;
             s2 = aw_h3_sdhost_auto_stop sd s1
         in Some (aw_h3_sdhost_update_irq s2, ram))
      else if offset = REG_SD_RES_CRC \<or> offset = REG_SD_DATA7_CRC
            \<or> offset = REG_SD_DATA6_CRC \<or> offset = REG_SD_DATA5_CRC
            \<or> offset = REG_SD_DATA4_CRC \<or> offset = REG_SD_DATA3_CRC
            \<or> offset = REG_SD_DATA2_CRC \<or> offset = REG_SD_DATA1_CRC
            \<or> offset = REG_SD_DATA0_CRC \<or> offset = REG_SD_CRC_STA
      then Some (s, ram)
      else Some (s, ram))"

section \<open>Reset\<close>

definition aw_h3_sdhost_reset :: "AwH3SDHostState \<Rightarrow> AwH3SDHostState" where
  "aw_h3_sdhost_reset s =
     s\<lparr>global_ctl := REG_SD_GCTL_RST, clock_ctl := REG_SD_CKCR_RST,
       timeout := REG_SD_TMOR_RST, bus_width := REG_SD_BWDR_RST,
       block_size := REG_SD_BKSR_RST, byte_count := REG_SD_BYCR_RST, transfer_cnt := 0,
       command := REG_SD_CMDR_RST, command_arg := REG_SD_CAGR_RST,
       response := foldl (\<lambda>f i. f(i := REG_SD_RESP_RST)) (response s) [0..<4],
       irq_mask := REG_SD_IMKR_RST, irq_status := REG_SD_RISR_RST, status := REG_SD_STAR_RST,
       fifo_wlevel := REG_SD_FWLR_RST, fifo_func_sel := REG_SD_FUNS_RST,
       debug_enable := REG_SD_DBGC_RST, auto12_arg := REG_SD_A12A_RST,
       newtiming_set := REG_SD_NTSR_RST, newtiming_debug := REG_SD_SDBG_RST,
       hardware_rst := REG_SD_HWRST_RST, dmac := REG_SD_DMAC_RST, desc_base := REG_SD_DLBA_RST,
       dmac_status := REG_SD_IDST_RST, dmac_irq := REG_SD_IDIE_RST,
       card_threshold := REG_SD_THLDC_RST, startbit_detect := REG_SD_DSBD_RST,
       response_crc := REG_SD_RES_CRC_RST,
       data_crc := foldl (\<lambda>f i. f(i := REG_SD_DATA_CRC_RST)) (data_crc s) [0..<8],
       status_crc := REG_SD_CRC_STA_RST\<rparr>"

section \<open>Definitions that the claims are stated with\<close>

text \<open>
  The IDST write as the specification words it: write-one-to-clear under the mask
  \<open>0x3FF\<close>. The bits of \<open>v\<close> inside the mask are cleared in the register, every
  other bit is kept.
\<close>

definition idst_w1c_spec :: "u32 \<Rightarrow> u32 \<Rightarrow> u32" where
  "idst_w1c_spec d v = d AND NOT (v AND 0x3FF)"

text \<open>
  The size a descriptor denotes: the size field of the descriptor at \<open>desc_addr\<close>, with 0
  read as 65536 bytes.
\<close>

definition desc_seg_size :: "guest_mem \<Rightarrow> hwaddr \<Rightarrow> u32" where
  "desc_seg_size ram desc_addr =
     (let sz = dsize (desc_of_bytes (cpu_physical_memory_read ram desc_addr 16))
      in if sz = 0 then 65536 else sz)"

text \<open>
  The passes of the \<open>while (s->byte_count > 0)\<close> loop of \<open>aw_h3_sdhost_dma\<close>, in
  order, as a list: the loop of \<open>dma_loop\<close> with the same tests and the same next
  descriptor address, but recording every pass (the descriptor processed, the device state
  and guest memory after it) and stopping after at most \<open>n\<close> passes.
\<close>

fun dma_passes ::
  "nat \<Rightarrow> sd_card \<Rightarrow> bool \<Rightarrow> hwaddr \<Rightarrow> AwH3SDHostState \<Rightarrow> guest_mem
     \<Rightarrow> (TransferDescriptor \<times> AwH3SDHostState \<times> guest_mem) list" where
  "dma_passes 0 sd is_write desc_addr s ram = []"
| "dma_passes (Suc n) sd is_write desc_addr s ram =
     (if byte_count s > 0 then
        (let b = dma_loop_body sd is_write desc_addr s ram
         in if dstatus (fst b) AND DESC_STATUS_LAST \<noteq> 0
            then [b]
            else b # dma_passes n sd is_write (ucast (dnext (fst b))) (fst (snd b)) (snd (snd b)))
      else [])"

text \<open>
  The walk from a state: \<open>byte_count\<close> passes are enough, since each pass moves at
  least one byte, as is proved below.
\<close>

definition dma_walk ::
  "sd_card \<Rightarrow> bool \<Rightarrow> hwaddr \<Rightarrow> AwH3SDHostState \<Rightarrow> guest_mem
     \<Rightarrow> (TransferDescriptor \<times> AwH3SDHostState \<times> guest_mem) list" where
  "dma_walk sd is_write desc_addr s ram =
     dma_passes (unat (byte_count s)) sd is_write desc_addr s ram"

text \<open>Where a list of passes leaves the device and guest memory.\<close>

definition walk_result ::
  "AwH3SDHostState \<Rightarrow> guest_mem \<Rightarrow> (TransferDescriptor \<times> AwH3SDHostState \<times> guest_mem) list
     \<Rightarrow> AwH3SDHostState \<times> guest_mem" where
  "walk_result s ram ps = (if ps = [] then (s, ram) else snd (last ps))"

text \<open>
  The call the descriptor engine makes on the SD bus for one byte: \<open>sdbus_write_data\<close>
  with the byte for a write, \<open>sdbus_read_data\<close> for a read.
\<close>

definition bus_call :: "bool \<Rightarrow> u8 \<Rightarrow> sd_call" where
  "bus_call is_write b = (if is_write then WriteData b else ReadData)"

text \<open>
  The answers that \<open>aw_h3_sdhost_send_command\<close> does not send to its \<open>error\<close> label,
  read off its tests: the length is not negative and, when the command has
  \<open>RESPONSE\<close> set, it is 16, or it is 4 and \<open>RESPONSE_LONG\<close> is clear.
\<close>

definition response_accepted :: "u32 \<Rightarrow> int \<Rightarrow> bool" where
  "response_accepted c rlen =
     (0 \<le> rlen \<and>
      (c AND SD_CMDR_RESPONSE = 0 \<or> rlen = 16 \<or> (rlen = 4 \<and> c AND SD_CMDR_RESPONSE_LONG = 0)))"

text \<open>
  The device states that a guest can reach: reset (from any earlier state), followed by any
  sequence of MMIO reads, MMIO writes that return, and card insertion or removal callbacks,
  with guest memory arbitrary at every write.
\<close>

inductive reachable :: "sd_card \<Rightarrow> AwH3SDHostState \<Rightarrow> bool" for sd :: sd_card where
  reach_reset: "reachable sd (aw_h3_sdhost_reset s)"
| reach_read: "reachable sd s \<Longrightarrow> reachable sd (snd (aw_h3_sdhost_read sd s offset))"
| reach_write: "reachable sd s \<Longrightarrow> aw_h3_sdhost_write sd s ram offset value = Some (s', ram')
     \<Longrightarrow> reachable sd s'"
| reach_inserted: "reachable sd s \<Longrightarrow> reachable sd (aw_h3_sdhost_set_inserted s inserted)"

section \<open>Concrete devices, cards and memories\<close>

text \<open>The device object as allocated, before its first reset: every field zero.\<close>

definition zeroed_state :: AwH3SDHostState where
  "zeroed_state =
     \<lparr>global_ctl = 0, clock_ctl = 0, timeout = 0, bus_width = 0, block_size = 0,
      byte_count = 0, transfer_cnt = 0, command = 0, command_arg = 0,
      response = (\<lambda>_. 0), irq_mask = 0, irq_status = 0, status = 0, fifo_wlevel = 0,
      fifo_func_sel = 0, debug_enable = 0, auto12_arg = 0, newtiming_set = 0,
      newtiming_debug = 0, hardware_rst = 0, dmac = 0, desc_base = 0, dmac_status = 0,
      dmac_irq = 0, card_threshold = 0, startbit_detect = 0, response_crc = 0,
      data_crc = (\<lambda>_. 0), status_crc = 0, irq = 0, sdbus = []\<rparr>"

text \<open>An empty slot: commands get no response, no data is ready, reads give 0.\<close>

definition no_card :: sd_card where
  "no_card = \<lparr>card_do_command = (\<lambda>_ _. (0, (\<lambda>_. 0))), card_data_ready = (\<lambda>_. False),
              card_read_data = (\<lambda>_. 0)\<rparr>"

text \<open>A card that answers every command with the sixteen bytes \<open>0x00 .. 0x0F\<close>.\<close>

definition long_card :: sd_card where
  "long_card = \<lparr>card_do_command = (\<lambda>_ _. (16, (\<lambda>i. of_nat i))),
                card_data_ready = (\<lambda>_. False), card_read_data = (\<lambda>_. 0)\<rparr>"

text \<open>A card with data ready: every read gives \<open>0x5A\<close>, every command four zero bytes.\<close>

definition data_card :: sd_card where
  "data_card = \<lparr>card_do_command = (\<lambda>_ _. (4, (\<lambda>_. 0))), card_data_ready = (\<lambda>_. True),
                card_read_data = (\<lambda>_. 0x5A)\<rparr>"

text \<open>Guest memory with every byte 0.\<close>

definition zero_ram :: guest_mem where
  "zero_ram = (\<lambda>_. 0)"

text \<open>
  Guest memory holding one descriptor at address 0: status \<open>LAST | NOIRQ\<close>, size 4,
  buffer at \<open>0x100\<close>, next 0; every other byte is 0.
\<close>

definition noirq_ram :: guest_mem where
  "noirq_ram = (\<lambda>a. if a = 0 then 6 else if a = 4 then 4 else if a = 9 then 1 else 0)"

text \<open>After reset, set up for a DMA write of 4 bytes: \<open>DMA_ENB\<close> and \<open>WRITE\<close> set.\<close>

definition dma_write_state :: AwH3SDHostState where
  "dma_write_state =
     (aw_h3_sdhost_reset zeroed_state)\<lparr>global_ctl := 0x320, byte_count := 4,
        transfer_cnt := 4, command := 0x400\<rparr>"

text \<open>After reset, with \<open>BYCR\<close> written to 4: a programmed-I/O transfer of one word.\<close>

definition pio_state :: AwH3SDHostState where
  "pio_state = (aw_h3_sdhost_reset zeroed_state)\<lparr>byte_count := 4, transfer_cnt := 4\<rparr>"

text \<open>
  The state after reset, a write of 4 to BYCR, a write of \<open>0xDEADBEEF\<close> to the FIFO and
  a write of \<open>0x4008\<close> to RISR, with no card: the word has been transferred and the
  guest has acknowledged both completion bits.
\<close>

definition acked_state :: AwH3SDHostState where
  "acked_state = pio_state\<lparr>transfer_cnt := 0,
      sdbus := [WriteData 0xEF, WriteData 0xBE, WriteData 0xAD, WriteData 0xDE]\<rparr>"

text \<open>
  After reset, the command register holding \<open>LOAD | RESPONSE | CMD2\<close> (short response
  expected), and \<open>LOAD | RESPONSE | RESPONSE_LONG | CMD2\<close>.
\<close>

definition short_cmd_state :: AwH3SDHostState where
  "short_cmd_state = (aw_h3_sdhost_reset zeroed_state)\<lparr>command := 0x80000042\<rparr>"

definition long_cmd_state :: AwH3SDHostState where
  "long_cmd_state = (aw_h3_sdhost_reset zeroed_state)\<lparr>command := 0x800000C2\<rparr>"

text \<open>
  After reset, the command register holding \<open>AUTOSTOP | RESPONSE | CMD25\<close> with argument
  \<open>0x1234\<close>; the transfer counter is 0.
\<close>

definition autostop_state :: AwH3SDHostState where
  "autostop_state =
     (aw_h3_sdhost_reset zeroed_state)\<lparr>command := 0x1059, command_arg := 0x1234\<rparr>"

text \<open>The same with \<open>CLKCHANGE\<close> set as well.\<close>

definition autostop_clk_state :: AwH3SDHostState where
  "autostop_clk_state =
     (aw_h3_sdhost_reset zeroed_state)\<lparr>command := 0x201059, command_arg := 0x1234\<rparr>"

text \<open>
  Guest memory holding a chain of two descriptors, neither with \<open>LAST\<close>. The first,
  at address 0: status 0, size 4, buffer at \<open>0x100\<close>, next \<open>0x20\<close>. The second, at
  \<open>0x20\<close>: status 0, size 0, buffer at \<open>0x200\<close>, next \<open>0x20\<close> (itself). The first
  buffer holds four bytes \<open>0x11\<close>, the second six bytes \<open>0x22\<close>; every other byte
  is 0.
\<close>

definition chain_ram :: guest_mem where
  "chain_ram = (\<lambda>a. if a = 4 then 4 else if a = 9 then 1 else if a = 12 then 0x20
                     else if a = 0x29 then 2 else if a = 0x2C then 0x20
                     else if 0x100 \<le> a \<and> a < 0x104 then 0x11
                     else if 0x200 \<le> a \<and> a < 0x206 then 0x22 else 0)"

text \<open>
  After reset, set up for a DMA write of 10 bytes (\<open>DMA_ENB\<close> and \<open>WRITE\<close> set), and
  the same for a DMA read.
\<close>

definition chain_state :: AwH3SDHostState where
  "chain_state =
     (aw_h3_sdhost_reset zeroed_state)\<lparr>global_ctl := 0x320, byte_count := 10,
        transfer_cnt := 10, command := 0x400\<rparr>"

definition chain_read_state :: AwH3SDHostState where
  "chain_read_state = chain_state\<lparr>command := 0\<rparr>"

section \<open>Word facts: truncation and masks\<close>

lemma ucast_and_not_64:
  "ucast ((ucast x :: u64) AND NOT (ucast v)) = (x AND NOT v :: u32)" for v :: u32
  by (rule bit_word_eqI) (auto simp: bit_simps)

lemma idst_expr_64:
  "(ucast ((ucast d :: u64) AND
           (scast (NOT SD_IDST_WR_MASK) OR (NOT (ucast v) AND ucast SD_IDST_WR_MASK))) :: u32)
     = d AND (NOT SD_IDST_WR_MASK OR (NOT v AND SD_IDST_WR_MASK))" for v :: u32
  by (rule bit_word_eqI) (auto simp: bit_simps simp del: SD_IDST_WR_MASK_def)

lemma idst_expr_w1c:
  "d AND (NOT SD_IDST_WR_MASK OR (NOT v AND SD_IDST_WR_MASK)) = idst_w1c_spec d v"
  unfolding idst_w1c_spec_def
  by (rule bit_word_eqI) (auto simp: bit_simps)

lemma ff_mask: "(0xff :: u64) = mask 8"
  by (simp add: mask_eq_exp_minus_1)

lemma fifo_byte: "(ucast (drop_bit n (ucast v :: u64) AND 0xff) :: u8) = ucast (drop_bit n (v :: u32))"
  unfolding ff_mask
  by (rule bit_word_eqI) (auto simp: bit_simps dest: bit_imp_le_length)

lemma fifo_byte0: "(ucast ((ucast v :: u64) AND 0xff) :: u8) = ucast (v :: u32)"
  using fifo_byte[of 0 v] by simp

lemma and_not_and: "(c AND - 2147483649) AND m = c AND (- 2147483649 AND (m :: u32))"
  by (simp only: and.assoc)

lemma cmd12_and: "((c AND k) OR j) AND m = (c AND (k AND m)) OR (j AND (m :: u32))"
  by (simp only: bit.conj_disj_distrib2 and.assoc)

lemma not_load_and_load: "(c AND NOT SD_CMDR_LOAD) AND SD_CMDR_LOAD = 0"
  by (simp add: and_not_and)

lemma gctl_rst_clear: "(x AND NOT (SD_GCTL_DMA_RST OR SD_GCTL_FIFO_RST OR SD_GCTL_SOFT_RST)) AND
   (SD_GCTL_DMA_RST OR SD_GCTL_FIFO_RST OR SD_GCTL_SOFT_RST) = 0"
  by (simp add: and.assoc)

lemma load_trunc:
  "(ucast (value AND scast SD_CMDR_LOAD) :: u32) = ucast (value :: u64) AND SD_CMDR_LOAD"
  by (rule bit_word_eqI) (auto simp: bit_simps simp del: SD_CMDR_LOAD_def)

lemma load_test_clear:
  assumes "value AND scast SD_CMDR_LOAD = 0"
  shows "(ucast (value :: u64) :: u32) AND SD_CMDR_LOAD = 0"
proof -
  have "(ucast (value AND scast SD_CMDR_LOAD) :: u32) = 0"
    by (simp only: assms) simp
  then show ?thesis by (simp only: load_trunc)
qed

lemma or_and_absorb: "(x OR m) AND m = (m :: u32)"
  by (rule bit_word_eqI) (auto simp: bit_simps)

lemma or_keeps_bits: "x AND m = m \<Longrightarrow> (x OR y) AND m = (m :: u32)"
proof -
  assume a: "x AND m = m"
  have "(x OR y) AND m = (x AND m) OR (y AND m)"
    by (simp only: bit.conj_disj_distrib2)
  also have "\<dots> = m OR (y AND m)" by (simp only: a)
  also have "\<dots> = m" by (rule bit_word_eqI) (auto simp: bit_simps)
  finally show ?thesis .
qed

lemma ucast_and_zero: "x AND m = 0 \<Longrightarrow> (ucast x :: u64) AND ucast m = 0" for x :: u32
  by (metis unsigned_and_eq unsigned_0)

lemma sub4_nonzero: "4 < (x :: u32) \<Longrightarrow> x - 4 \<noteq> 0"
  by unat_arith

section \<open>Interrupt line and transfer counter: what they change\<close>

lemma update_irq_fields:
  "global_ctl (aw_h3_sdhost_update_irq s) = global_ctl s"
  "command (aw_h3_sdhost_update_irq s) = command s"
  "transfer_cnt (aw_h3_sdhost_update_irq s) = transfer_cnt s"
  "irq_status (aw_h3_sdhost_update_irq s) = irq_status s"
  "sdbus (aw_h3_sdhost_update_irq s) = sdbus s"
  by (simp_all add: aw_h3_sdhost_update_irq_def Let_def)

lemma update_transfer_cnt_frame:
  "global_ctl (aw_h3_sdhost_update_transfer_cnt s n) = global_ctl s"
  "command (aw_h3_sdhost_update_transfer_cnt s n) = command s"
  "byte_count (aw_h3_sdhost_update_transfer_cnt s n) = byte_count s"
  by (simp_all add: aw_h3_sdhost_update_transfer_cnt_def Let_def)

lemma update_transfer_cnt_fields:
  "sdbus (aw_h3_sdhost_update_transfer_cnt s n) = sdbus s"
  "transfer_cnt (aw_h3_sdhost_update_transfer_cnt s n) =
     (if n < transfer_cnt s then transfer_cnt s - n else 0)"
  by (simp_all add: aw_h3_sdhost_update_transfer_cnt_def Let_def)

lemma update_transfer_cnt_bits:
  "transfer_cnt (aw_h3_sdhost_update_transfer_cnt s n) = 0 \<Longrightarrow>
   irq_status (aw_h3_sdhost_update_transfer_cnt s n) AND
     (SD_RISR_DATA_COMPLETE OR SD_RISR_AUTOCMD_DONE) = SD_RISR_DATA_COMPLETE OR SD_RISR_AUTOCMD_DONE"
  using or_and_absorb[of "irq_status s" "0x4008"]
  by (simp add: aw_h3_sdhost_update_transfer_cnt_def Let_def split: if_splits)

section \<open>The command engine, case by case\<close>

lemma send_command_clkchange:
  assumes "command s AND SD_CMDR_CLKCHANGE \<noteq> 0"
  shows "aw_h3_sdhost_send_command sd s =
     s\<lparr>command := command s AND NOT SD_CMDR_LOAD,
       irq_status := irq_status s OR SD_RISR_CMD_COMPLETE\<rparr>"
  using assms
  by (simp add: aw_h3_sdhost_send_command_def Let_def and_not_and)

lemma send_command_bus:
  assumes "command s AND SD_CMDR_CLKCHANGE = 0"
    and "card_do_command sd (sdbus s) \<lparr>cmd = ucast (command s AND SD_CMDR_CMDID_MASK), arg = command_arg s\<rparr> = (rlen, resp)"
  shows "aw_h3_sdhost_send_command sd s =
     s\<lparr>command := command s AND NOT SD_CMDR_LOAD,
       sdbus := sdbus s @ [DoCommand \<lparr>cmd = ucast (command s AND SD_CMDR_CMDID_MASK), arg = command_arg s\<rparr>],
       response := (if rlen < 0 \<or> command s AND SD_CMDR_RESPONSE = 0 then response s
                    else if rlen = 4 \<and> command s AND SD_CMDR_RESPONSE_LONG = 0
                    then (response s)(0 := ldl_be_p resp 0, 3 := 0, 2 := 0, 1 := 0)
                    else if rlen = 16
                    then (response s)(0 := ldl_be_p resp 12, 1 := ldl_be_p resp 8,
                                      2 := ldl_be_p resp 4, 3 := ldl_be_p resp 0)
                    else response s),
       irq_status := irq_status s OR
          (if response_accepted (command s) rlen then SD_RISR_CMD_COMPLETE else SD_RISR_NO_RESPONSE)\<rparr>"
  using assms
  by (simp add: aw_h3_sdhost_send_command_def sdbus_do_command_def Let_def response_accepted_def
        and_not_and)

lemma send_command_error_cases:
  assumes "command s AND SD_CMDR_RESPONSE \<noteq> 0" and "command s AND SD_CMDR_CLKCHANGE = 0"
    and "card_do_command sd (sdbus s)
           \<lparr>cmd = ucast (command s AND SD_CMDR_CMDID_MASK), arg = command_arg s\<rparr> = (rlen, resp)"
    and "rlen < 0 \<or> rlen = 0 \<or> (command s AND SD_CMDR_RESPONSE_LONG \<noteq> 0 \<and> rlen \<noteq> 16)
           \<or> (command s AND SD_CMDR_RESPONSE_LONG = 0 \<and> rlen \<noteq> 4 \<and> rlen \<noteq> 16)"
  shows "response (aw_h3_sdhost_send_command sd s) = response s \<and>
         irq_status (aw_h3_sdhost_send_command sd s) = irq_status s OR SD_RISR_NO_RESPONSE"
  using assms(1,4)
  by (auto simp: send_command_bus[OF assms(2,3)] response_accepted_def)

lemma send_command_frame:
  "\<exists>bus r x. aw_h3_sdhost_send_command sd s =
     s\<lparr>command := command s AND NOT SD_CMDR_LOAD, sdbus := bus, response := r,
       irq_status := irq_status s OR x\<rparr>"
proof (cases "command s AND SD_CMDR_CLKCHANGE = 0")
  case True
  obtain rlen resp where "card_do_command sd (sdbus s)
      \<lparr>cmd = ucast (command s AND SD_CMDR_CMDID_MASK), arg = command_arg s\<rparr> = (rlen, resp)"
    by (cases "card_do_command sd (sdbus s)
      \<lparr>cmd = ucast (command s AND SD_CMDR_CMDID_MASK), arg = command_arg s\<rparr>") blast
  from send_command_bus[OF True this] show ?thesis by blast
next
  case False
  have "aw_h3_sdhost_send_command sd s =
     s\<lparr>command := command s AND NOT SD_CMDR_LOAD, sdbus := sdbus s, response := response s,
       irq_status := irq_status s OR SD_RISR_CMD_COMPLETE\<rparr>"
    by (simp add: send_command_clkchange[OF False])
  then show ?thesis by blast
qed

lemma send_command_fields:
  "global_ctl (aw_h3_sdhost_send_command sd s) = global_ctl s"
  "command (aw_h3_sdhost_send_command sd s) = command s AND NOT SD_CMDR_LOAD"
  using send_command_frame[of sd s] by auto

lemma auto_stop_fires:
  assumes "command s AND SD_CMDR_AUTOSTOP \<noteq> 0" and "transfer_cnt s = 0"
  shows "aw_h3_sdhost_auto_stop sd s =
     (aw_h3_sdhost_send_command sd
        (s\<lparr>command := (command s AND NOT SD_CMDR_CMDID_MASK) OR 12, command_arg := 0\<rparr>))
       \<lparr>command := command s, command_arg := command_arg s\<rparr>"
  using assms by (simp add: aw_h3_sdhost_auto_stop_def Let_def)

lemma auto_stop_clkchange:
  assumes "command s AND SD_CMDR_AUTOSTOP \<noteq> 0" and "transfer_cnt s = 0"
    and "command s AND SD_CMDR_CLKCHANGE \<noteq> 0"
  shows "aw_h3_sdhost_auto_stop sd s = s\<lparr>irq_status := irq_status s OR SD_RISR_CMD_COMPLETE\<rparr>"
proof -
  let ?s12 = "s\<lparr>command := (command s AND NOT SD_CMDR_CMDID_MASK) OR 12, command_arg := 0\<rparr>"
  have c: "command ?s12 AND SD_CMDR_CLKCHANGE \<noteq> 0"
    using assms(3) by (simp add: cmd12_and)
  show ?thesis
    unfolding auto_stop_fires[OF assms(1,2)] send_command_clkchange[OF c]
    by simp
qed

lemma auto_stop_bus:
  assumes "command s AND SD_CMDR_AUTOSTOP \<noteq> 0" and "transfer_cnt s = 0"
    and "command s AND SD_CMDR_CLKCHANGE = 0"
    and "card_do_command sd (sdbus s) \<lparr>cmd = 12, arg = 0\<rparr> = (rlen, resp)"
  shows "aw_h3_sdhost_auto_stop sd s =
     s\<lparr>sdbus := sdbus s @ [DoCommand \<lparr>cmd = 12, arg = 0\<rparr>],
       response := (if rlen < 0 \<or> command s AND SD_CMDR_RESPONSE = 0 then response s
                    else if rlen = 4 \<and> command s AND SD_CMDR_RESPONSE_LONG = 0
                    then (response s)(0 := ldl_be_p resp 0, 3 := 0, 2 := 0, 1 := 0)
                    else if rlen = 16
                    then (response s)(0 := ldl_be_p resp 12, 1 := ldl_be_p resp 8,
                                      2 := ldl_be_p resp 4, 3 := ldl_be_p resp 0)
                    else response s),
       irq_status := irq_status s OR
          (if response_accepted (command s) rlen then SD_RISR_CMD_COMPLETE else SD_RISR_NO_RESPONSE)\<rparr>"
proof -
  let ?s12 = "s\<lparr>command := (command s AND NOT SD_CMDR_CMDID_MASK) OR 12, command_arg := 0\<rparr>"
  have c: "command ?s12 AND SD_CMDR_CLKCHANGE = 0"
    using assms(3) by (simp add: cmd12_and)
  have r: "card_do_command sd (sdbus ?s12)
      \<lparr>cmd = ucast (command ?s12 AND SD_CMDR_CMDID_MASK), arg = command_arg ?s12\<rparr> = (rlen, resp)"
    using assms(4) by (simp add: cmd12_and)
  show ?thesis
    unfolding auto_stop_fires[OF assms(1,2)] send_command_bus[OF c r]
    by (simp add: cmd12_and response_accepted_def)
qed

lemma auto_stop_frame:
  "\<exists>bus r x. aw_h3_sdhost_auto_stop sd s =
     s\<lparr>sdbus := bus, response := r, irq_status := irq_status s OR x\<rparr>"
proof (cases "command s AND SD_CMDR_AUTOSTOP \<noteq> 0 \<and> transfer_cnt s = 0")
  case False
  then have "aw_h3_sdhost_auto_stop sd s =
     s\<lparr>sdbus := sdbus s, response := response s, irq_status := irq_status s OR 0\<rparr>"
    by (auto simp: aw_h3_sdhost_auto_stop_def)
  then show ?thesis by blast
next
  case True
  let ?s12 = "s\<lparr>command := (command s AND NOT SD_CMDR_CMDID_MASK) OR 12, command_arg := 0\<rparr>"
  obtain bus r x where "aw_h3_sdhost_send_command sd ?s12 =
     ?s12\<lparr>command := command ?s12 AND NOT SD_CMDR_LOAD, sdbus := bus, response := r,
       irq_status := irq_status ?s12 OR x\<rparr>"
    using send_command_frame[of sd ?s12] by blast
  then have "aw_h3_sdhost_auto_stop sd s =
     s\<lparr>sdbus := bus, response := r, irq_status := irq_status s OR x\<rparr>"
    using True by (simp add: auto_stop_fires)
  then show ?thesis by blast
qed

lemma auto_stop_fields:
  "global_ctl (aw_h3_sdhost_auto_stop sd s) = global_ctl s"
  "command (aw_h3_sdhost_auto_stop sd s) = command s"
  "transfer_cnt (aw_h3_sdhost_auto_stop sd s) = transfer_cnt s"
  using auto_stop_frame[of sd s] by auto

lemma auto_stop_keeps_bits:
  "irq_status s AND m = m \<Longrightarrow> irq_status (aw_h3_sdhost_auto_stop sd s) AND m = m"
  using auto_stop_frame[of sd s] by (auto simp: or_keeps_bits)

lemma auto_stop_sdbus:
  "sdbus (aw_h3_sdhost_auto_stop sd s) =
     sdbus s @ (if command s AND SD_CMDR_AUTOSTOP \<noteq> 0 \<and> transfer_cnt s = 0 \<and>
                   command s AND SD_CMDR_CLKCHANGE = 0
                then [DoCommand \<lparr>cmd = 12, arg = 0\<rparr>] else [])"
proof (cases "command s AND SD_CMDR_AUTOSTOP \<noteq> 0 \<and> transfer_cnt s = 0")
  case False
  then show ?thesis by (auto simp: aw_h3_sdhost_auto_stop_def)
next
  case fires: True
  show ?thesis
  proof (cases "command s AND SD_CMDR_CLKCHANGE = 0")
    case True
    obtain rlen resp where c: "card_do_command sd (sdbus s) \<lparr>cmd = 12, arg = 0\<rparr> = (rlen, resp)"
      by (cases "card_do_command sd (sdbus s) \<lparr>cmd = 12, arg = 0\<rparr>") blast
    show ?thesis using fires True
      by (simp add: auto_stop_bus[OF _ _ True c])
  next
    case False
    then show ?thesis using fires by (simp add: auto_stop_clkchange)
  qed
qed

section \<open>The descriptor engine returns\<close>

lemma chunk_le:
  "num_done < num_bytes \<Longrightarrow>
   num_done + (if 1024 < num_bytes - num_done then 1024 else num_bytes - num_done)
     \<le> (num_bytes :: u32)"
  by (cases "1024 < num_bytes - num_done"; simp; unat_arith)

lemma process_desc_loop_done:
  "fst (process_desc_loop sd is_write desc num_bytes num_done bus ram) =
     (if num_done < num_bytes then num_bytes else num_done)"
proof (induction sd is_write desc num_bytes num_done bus ram rule: process_desc_loop.induct)
  case (1 sd is_write desc num_bytes num_done bus ram)
  show ?case
  proof (cases "num_done < num_bytes")
    case False
    then show ?thesis by (subst process_desc_loop.simps) simp
  next
    case True
    define buf_bytes
      where "buf_bytes = (if 1024 < num_bytes - num_done then 1024 else num_bytes - num_done)"
    have le: "num_done + buf_bytes \<le> num_bytes"
      using chunk_le[OF True] by (simp add: buf_bytes_def)
    show ?thesis
      using True le 1
      by (subst process_desc_loop.simps) (simp add: Let_def buf_bytes_def[symmetric])
  qed
qed

lemma process_desc_num_done:
  "fst (aw_h3_sdhost_process_desc sd s ram desc_addr is_write max_bytes) =
     min (desc_seg_size ram desc_addr) max_bytes"
  by (auto simp: aw_h3_sdhost_process_desc_def Let_def process_desc_loop_done desc_seg_size_def
        min_def word_gt_0)

lemma process_desc_state:
  "\<exists>bus. fst (snd (snd (aw_h3_sdhost_process_desc sd s ram desc_addr is_write max_bytes))) =
     s\<lparr>sdbus := bus\<rparr>"
  by (auto simp: aw_h3_sdhost_process_desc_def Let_def)

lemma desc_seg_size_pos: "desc_seg_size ram desc_addr \<noteq> 0"
  by (simp add: desc_seg_size_def Let_def)

lemma dma_loop_body_frame:
  "global_ctl (fst (snd (dma_loop_body sd is_write desc_addr s ram))) = global_ctl s"
  "command (fst (snd (dma_loop_body sd is_write desc_addr s ram))) = command s"
  "byte_count (fst (snd (dma_loop_body sd is_write desc_addr s ram))) =
     byte_count s - min (desc_seg_size ram desc_addr) (byte_count s)"
proof -
  define r where "r = aw_h3_sdhost_process_desc sd s ram desc_addr is_write (byte_count s)"
  obtain bus where st: "fst (snd (snd r)) = s\<lparr>sdbus := bus\<rparr>"
    using process_desc_state[of sd s ram desc_addr is_write "byte_count s"]
    by (auto simp: r_def)
  have bd: "fst r = min (desc_seg_size ram desc_addr) (byte_count s)"
    by (simp add: r_def process_desc_num_done)
  have le: "fst r \<le> byte_count s"
    by (simp add: bd)
  show "global_ctl (fst (snd (dma_loop_body sd is_write desc_addr s ram))) = global_ctl s"
    by (simp add: dma_loop_body_def Let_def r_def[symmetric] st update_transfer_cnt_frame)
  show "command (fst (snd (dma_loop_body sd is_write desc_addr s ram))) = command s"
    by (simp add: dma_loop_body_def Let_def r_def[symmetric] st update_transfer_cnt_frame)
  show "byte_count (fst (snd (dma_loop_body sd is_write desc_addr s ram))) =
     byte_count s - min (desc_seg_size ram desc_addr) (byte_count s)"
    using le
    by (simp add: dma_loop_body_def Let_def r_def[symmetric] st update_transfer_cnt_frame bd)
qed

lemma dma_loop_body_decreases:
  assumes "byte_count s \<noteq> 0"
  shows "unat (byte_count (fst (snd (dma_loop_body sd is_write desc_addr s ram))))
           < unat (byte_count s)"
proof -
  have "min (desc_seg_size ram desc_addr) (byte_count s) \<noteq> 0"
    using assms desc_seg_size_pos[of ram desc_addr] by (auto simp: min_def)
  moreover have "min (desc_seg_size ram desc_addr) (byte_count s) \<le> byte_count s"
    by simp
  ultimately show ?thesis
    unfolding dma_loop_body_frame by unat_arith
qed

lemma dma_loop_returns:
  "\<exists>s' ram'. dma_loop sd is_write desc_addr s ram = Some (s', ram') \<and>
      global_ctl s' = global_ctl s \<and> command s' = command s \<and> byte_count s' \<le> byte_count s"
proof (induction "unat (byte_count s)" arbitrary: s ram desc_addr rule: less_induct)
  case less
  show ?case
  proof (cases "byte_count s = 0")
    case True
    then show ?thesis by (subst dma_loop.simps) simp
  next
    case False
    define b where "b = dma_loop_body sd is_write desc_addr s ram"
    have dec: "unat (byte_count (fst (snd b))) < unat (byte_count s)"
      unfolding b_def by (rule dma_loop_body_decreases[OF False])
    have fr: "global_ctl (fst (snd b)) = global_ctl s" "command (fst (snd b)) = command s"
      by (simp_all add: b_def dma_loop_body_frame)
    have le: "byte_count (fst (snd b)) \<le> byte_count s"
      using dec by (simp add: word_le_nat_alt)
    have unfold: "dma_loop sd is_write desc_addr s ram =
        (if dstatus (fst b) AND DESC_STATUS_LAST \<noteq> 0 then Some (snd b)
         else dma_loop sd is_write (ucast (dnext (fst b))) (fst (snd b)) (snd (snd b)))"
      using False
      by (subst dma_loop.simps) (simp add: Let_def b_def[symmetric] word_gt_0)
    show ?thesis
    proof (cases "dstatus (fst b) AND DESC_STATUS_LAST \<noteq> 0")
      case True
      have "snd b = (fst (snd b), snd (snd b))" by simp
      then show ?thesis using unfold True fr le by (metis (no_types, lifting))
    next
      case nolast: False
      from less[OF dec, of "ucast (dnext (fst b))" "snd (snd b)"]
      obtain s' ram' where
        "dma_loop sd is_write (ucast (dnext (fst b))) (fst (snd b)) (snd (snd b)) = Some (s', ram')"
        "global_ctl s' = global_ctl (fst (snd b))" "command s' = command (fst (snd b))"
        "byte_count s' \<le> byte_count (fst (snd b))"
        by blast
      then show ?thesis using unfold nolast le by (simp add: fr)
    qed
  qed
qed

lemma dma_returns:
  "\<exists>s' ram'. aw_h3_sdhost_dma sd s ram = Some (s', ram') \<and>
      global_ctl s' = global_ctl s \<and> command s' = command s \<and> byte_count s' \<le> byte_count s"
proof -
  obtain s1 ram1 where
    "dma_loop sd (command s AND SD_CMDR_WRITE \<noteq> 0) (ucast (desc_base s)) s ram = Some (s1, ram1)"
    "global_ctl s1 = global_ctl s" "command s1 = command s" "byte_count s1 \<le> byte_count s"
    using dma_loop_returns by blast
  then show ?thesis
    by (simp add: aw_h3_sdhost_dma_def Let_def)
qed

lemma dma_completion:
  assumes "byte_count s \<noteq> 0" "block_size s \<noteq> 0" "global_ctl s AND SD_GCTL_DMA_ENB \<noteq> 0"
    and "command s AND SD_CMDR_WRITE \<noteq> 0 \<or> sdbus_data_ready sd (sdbus s)"
  shows "\<exists>s1 ram'.
     dma_loop sd (command s AND SD_CMDR_WRITE \<noteq> 0) (ucast (desc_base s)) s ram = Some (s1, ram') \<and>
     aw_h3_sdhost_dma sd s ram =
       Some (s1\<lparr>irq_status := irq_status s1 OR (SD_RISR_DATA_COMPLETE OR SD_RISR_AUTOCMD_DONE),
                dmac_status := dmac_status s1 OR
                  (if command s AND SD_CMDR_WRITE \<noteq> 0 then SD_IDST_TRANSMIT_IRQ
                   else SD_IDST_SUM_RECEIVE_IRQ OR SD_IDST_RECEIVE_IRQ)\<rparr>, ram')"
proof -
  obtain s1 ram1 where
    "dma_loop sd (command s AND SD_CMDR_WRITE \<noteq> 0) (ucast (desc_base s)) s ram = Some (s1, ram1)"
    using dma_loop_returns by blast
  then show ?thesis using assms
    by (auto simp: aw_h3_sdhost_dma_def Let_def)
qed

section \<open>What a descriptor moves\<close>

lemma bus_call_read: "map (bus_call False) bs = replicate (length bs) ReadData"
  by (induction bs) (simp_all add: bus_call_def)

lemma foldl_write_data: "foldl sdbus_write_data bus buf = bus @ map WriteData buf"
  by (induction buf arbitrary: bus) (simp_all add: sdbus_write_data_def)

lemma sdbus_read_buf_bus:
  "snd (sdbus_read_buf sd n bus) = bus @ replicate n ReadData \<and>
   length (fst (sdbus_read_buf sd n bus)) = n"
proof (induction n arbitrary: bus)
  case 0
  then show ?case by simp
next
  case (Suc n)
  show ?case
    using Suc[of "bus @ [ReadData]"]
    by (auto simp: sdbus_read_data_def Let_def replicate_app_Cons_same split: prod.splits)
qed

lemma process_desc_loop_bus:
  "num_done \<le> num_bytes \<Longrightarrow>
   \<exists>bs. length bs = unat num_bytes - unat num_done \<and>
     fst (snd (process_desc_loop sd is_write desc num_bytes num_done bus ram)) =
       bus @ map (bus_call is_write) bs"
proof (induction sd is_write desc num_bytes num_done bus ram rule: process_desc_loop.induct)
  case (1 sd is_write desc num_bytes num_done bus ram)
  show ?case
  proof (cases "num_done < num_bytes")
    case False
    then have "num_done = num_bytes" using "1.prems" by simp
    then show ?thesis by (subst process_desc_loop.simps) simp
  next
    case True
    define buf_bytes
      where "buf_bytes = (if 1024 < num_bytes - num_done then 1024 else num_bytes - num_done)"
    define a where "a = (ucast ((daddr desc AND DESC_SIZE_MASK) + num_done) :: hwaddr)"
    have le: "num_done + buf_bytes \<le> num_bytes"
      using chunk_le[OF True] by (simp add: buf_bytes_def)
    have len: "unat buf_bytes + (unat num_bytes - unat (num_done + buf_bytes)) =
               unat num_bytes - unat num_done"
      using True le unfolding buf_bytes_def
      by (cases "1024 < num_bytes - num_done"; simp; unat_arith)
    show ?thesis
    proof (cases is_write)
      case w: True
      define buf where "buf = cpu_physical_memory_read ram a (unat buf_bytes)"
      have lb: "length buf = unat buf_bytes"
        by (simp add: buf_def cpu_physical_memory_read_def)
      from "1.IH"(1)[OF True buf_bytes_def a_def w buf_def refl le]
      obtain bs where bs: "length bs = unat num_bytes - unat (num_done + buf_bytes)"
        "fst (snd (process_desc_loop sd is_write desc num_bytes (num_done + buf_bytes)
            (foldl sdbus_write_data bus buf) ram)) =
          foldl sdbus_write_data bus buf @ map (bus_call is_write) bs"
        by blast
      have "fst (snd (process_desc_loop sd is_write desc num_bytes num_done bus ram)) =
          bus @ map (bus_call is_write) (buf @ bs)"
        using True w bs(2)
        by (subst process_desc_loop.simps)
           (simp add: Let_def buf_bytes_def a_def buf_def foldl_write_data bus_call_def)
      moreover have "length (buf @ bs) = unat num_bytes - unat num_done"
        using lb bs(1) len by simp
      ultimately show ?thesis by blast
    next
      case r: False
      define rb where "rb = sdbus_read_buf sd (unat buf_bytes) bus"
      define ram' where "ram' = cpu_physical_memory_write a (fst rb) ram"
      from "1.IH"(2)[OF True buf_bytes_def a_def r rb_def ram'_def le]
      obtain bs where bs: "length bs = unat num_bytes - unat (num_done + buf_bytes)"
        "fst (snd (process_desc_loop sd is_write desc num_bytes (num_done + buf_bytes)
            (snd rb) ram')) = snd rb @ map (bus_call is_write) bs"
        by blast
      have rbb: "snd rb = bus @ map (bus_call is_write) (fst rb)" "length (fst rb) = unat buf_bytes"
        using r sdbus_read_buf_bus[of sd "unat buf_bytes" bus]
        by (simp_all add: rb_def bus_call_read)
      have "fst (snd (process_desc_loop sd is_write desc num_bytes num_done bus ram)) =
          bus @ map (bus_call is_write) (fst rb @ bs)"
        using True r bs(2) rbb(1)
        by (subst process_desc_loop.simps)
           (simp add: Let_def buf_bytes_def a_def rb_def ram'_def)
      moreover have "length (fst rb @ bs) = unat num_bytes - unat num_done"
        using rbb(2) bs(1) len by simp
      ultimately show ?thesis by blast
    qed
  qed
qed

lemma mem_write_at:
  "length bs < 2 ^ 64 \<Longrightarrow>
   cpu_physical_memory_write a bs ram x =
     (if unat (x - a) < length bs then bs ! unat (x - a) else ram x)"
proof (induction bs arbitrary: a ram)
  case Nil
  then show ?case by simp
next
  case (Cons b bs)
  have len: "length bs < 2 ^ 64" using Cons.prems by simp
  show ?case
  proof (cases "x = a")
    case True
    have "a - (a + 1) = - 1" by simp
    then have "unat (a - (a + 1)) = 2 ^ 64 - 1"
      by (simp only: unsigned_minus_1_eq_mask) (simp add: mask_eq_exp_minus_1)
    then have "\<not> unat (x - (a + 1)) < length bs" using Cons.prems True by simp
    then have "cpu_physical_memory_write (a + 1) bs (ram(a := b)) x = (ram(a := b)) x"
      by (simp only: Cons.IH[OF len] if_False)
    then show ?thesis using True by simp
  next
    case False
    then have nz: "x - a \<noteq> 0" by simp
    have e: "x - (a + 1) = x - a - 1" by simp
    have u: "unat (x - (a + 1)) = unat (x - a) - 1"
      unfolding e by (rule unat_minus_one[OF nz])
    have pos: "0 < unat (x - a)" using nz by (simp add: unat_gt_0)
    show ?thesis
      using False pos u by (auto simp: Cons.IH[OF len] nth_Cons split: nat.splits)
  qed
qed

lemma mem_read_after_write:
  assumes "length bs < 2 ^ 64"
  shows "cpu_physical_memory_read (cpu_physical_memory_write a bs ram) a (length bs) = bs"
proof (rule nth_equalityI)
  show "length (cpu_physical_memory_read (cpu_physical_memory_write a bs ram) a (length bs)) = length bs"
    by (simp add: cpu_physical_memory_read_def)
next
  fix i assume "i < length (cpu_physical_memory_read (cpu_physical_memory_write a bs ram) a (length bs))"
  then have i: "i < length bs" by (simp add: cpu_physical_memory_read_def)
  then have "i < 2 ^ 64" using assms by simp
  then have "unat (of_nat i :: hwaddr) = i"
    by (simp add: unat_of_nat)
  then show "cpu_physical_memory_read (cpu_physical_memory_write a bs ram) a (length bs) ! i = bs ! i"
    using i by (simp add: cpu_physical_memory_read_def mem_write_at[OF assms])
qed

lemma le32_le32_bytes: "le32 (le32_bytes w) = w"
  unfolding le32_def le32_bytes_def
  apply simp
  apply (rule bit_word_eqI)
  apply (auto simp: bit_simps)
  subgoal for n by (cases "n < 24") simp_all
  done

lemma desc_of_bytes_of_desc: "desc_of_bytes (bytes_of_desc d) = d"
  by (simp add: desc_of_bytes_def bytes_of_desc_def le32_le32_bytes)
     (simp add: le32_bytes_def le32_le32_bytes[unfolded le32_bytes_def])

lemma process_desc_bus:
  "\<exists>bs. length bs = unat (min (desc_seg_size ram desc_addr) max_bytes) \<and>
     sdbus (fst (snd (snd (aw_h3_sdhost_process_desc sd s ram desc_addr is_write max_bytes)))) =
       sdbus s @ map (bus_call is_write) bs"
proof -
  define desc1 where "desc1 =
    (if dsize (desc_of_bytes (cpu_physical_memory_read ram desc_addr 16)) = 0
     then (desc_of_bytes (cpu_physical_memory_read ram desc_addr 16))\<lparr>dsize := 0xffff + 1\<rparr>
     else desc_of_bytes (cpu_physical_memory_read ram desc_addr 16))"
  define num_bytes where "num_bytes = (if dsize desc1 < max_bytes then dsize desc1 else max_bytes)"
  have nb: "num_bytes = min (desc_seg_size ram desc_addr) max_bytes"
    by (auto simp: num_bytes_def desc1_def desc_seg_size_def Let_def min_def)
  from process_desc_loop_bus[of 0 num_bytes sd is_write desc1 "sdbus s" ram]
  obtain bs where "length bs = unat num_bytes"
    "fst (snd (process_desc_loop sd is_write desc1 num_bytes 0 (sdbus s) ram)) =
       sdbus s @ map (bus_call is_write) bs"
    by auto
  then show ?thesis
    unfolding nb[symmetric]
    by (auto simp: aw_h3_sdhost_process_desc_def Let_def desc1_def num_bytes_def)
qed

lemma process_desc_writeback:
  "desc_of_bytes (cpu_physical_memory_read
      (snd (snd (snd (aw_h3_sdhost_process_desc sd s ram desc_addr is_write max_bytes))))
      desc_addr 16) =
     fst (snd (aw_h3_sdhost_process_desc sd s ram desc_addr is_write max_bytes)) \<and>
   dstatus (fst (snd (aw_h3_sdhost_process_desc sd s ram desc_addr is_write max_bytes)))
     AND DESC_STATUS_HOLD = 0 \<and>
   dsize (fst (snd (aw_h3_sdhost_process_desc sd s ram desc_addr is_write max_bytes))) =
     desc_seg_size ram desc_addr"
proof -
  have l: "length (bytes_of_desc d) = 16" for d
    by (simp add: bytes_of_desc_def le32_bytes_def)
  have rw: "cpu_physical_memory_read (cpu_physical_memory_write desc_addr (bytes_of_desc d) m)
              desc_addr 16 = bytes_of_desc d" for d m
    using mem_read_after_write[of "bytes_of_desc d" desc_addr m] by (simp add: l)
  have hold: "(x AND NOT DESC_STATUS_HOLD) AND DESC_STATUS_HOLD = 0" for x :: u32
    by (simp add: and.assoc)
  show ?thesis
    using hold
    by (simp add: aw_h3_sdhost_process_desc_def Let_def rw desc_of_bytes_of_desc
        desc_seg_size_def)
qed

lemma dma_loop_body_bus:
  "\<exists>bs. length bs = unat (min (desc_seg_size ram desc_addr) (byte_count s)) \<and>
     sdbus (fst (snd (dma_loop_body sd is_write desc_addr s ram))) =
       sdbus s @ map (bus_call is_write) bs"
  using process_desc_bus[of ram desc_addr "byte_count s" sd s is_write]
  by (simp add: dma_loop_body_def Let_def update_transfer_cnt_fields)

lemma process_desc_loop_stop:
  "\<not> num_done < num_bytes \<Longrightarrow>
   process_desc_loop sd is_write desc num_bytes num_done bus ram = (num_done, bus, ram)"
  by (subst process_desc_loop.simps) simp

lemma process_desc_loop_one_chunk:
  "n \<le> 1024 \<Longrightarrow>
   process_desc_loop sd is_write desc n 0 bus ram =
     (if is_write
      then (n, bus @ map WriteData
                 (cpu_physical_memory_read ram (ucast (daddr desc AND DESC_SIZE_MASK))
                    (unat n)), ram)
      else (n, snd (sdbus_read_buf sd (unat n) bus),
            cpu_physical_memory_write (ucast (daddr desc AND DESC_SIZE_MASK))
              (fst (sdbus_read_buf sd (unat n) bus)) ram))"
proof (cases "n = 0")
  case True
  then show ?thesis
    by (simp add: process_desc_loop_stop cpu_physical_memory_read_def)
next
  case False
  then have pos: "0 < n" by (simp add: word_gt_0)
  assume le: "n \<le> 1024"
  then have nl: "\<not> 1024 < n" by simp
  show ?thesis
    using pos nl
    by (subst process_desc_loop.simps)
       (simp add: Let_def process_desc_loop_stop foldl_write_data)
qed

lemma process_desc_loop_write_ram:
  "is_write \<Longrightarrow>
   snd (snd (process_desc_loop sd is_write desc num_bytes num_done bus ram)) = ram"
proof (induction sd is_write desc num_bytes num_done bus ram rule: process_desc_loop.induct)
  case (1 sd is_write desc num_bytes num_done bus ram)
  show ?case
  proof (cases "num_done < num_bytes")
    case False
    then show ?thesis by (simp add: process_desc_loop_stop)
  next
    case True
    show ?thesis
      using True "1.prems" "1.IH"(1)[OF True refl refl "1.prems" refl refl "1.prems"]
      by (subst process_desc_loop.simps) (simp add: Let_def)
  qed
qed

lemma process_desc_write_data:
  assumes "is_write" "min (desc_seg_size ram desc_addr) max_bytes \<le> 1024"
  shows "sdbus (fst (snd (snd (aw_h3_sdhost_process_desc sd s ram desc_addr is_write max_bytes)))) =
     sdbus s @ map WriteData
       (cpu_physical_memory_read ram
          (ucast (daddr (desc_of_bytes (cpu_physical_memory_read ram desc_addr 16))
                  AND DESC_SIZE_MASK))
          (unat (min (desc_seg_size ram desc_addr) max_bytes)))"
proof -
  define desc1 where "desc1 =
    (if dsize (desc_of_bytes (cpu_physical_memory_read ram desc_addr 16)) = 0
     then (desc_of_bytes (cpu_physical_memory_read ram desc_addr 16))\<lparr>dsize := 0xffff + 1\<rparr>
     else desc_of_bytes (cpu_physical_memory_read ram desc_addr 16))"
  define num_bytes where "num_bytes = (if dsize desc1 < max_bytes then dsize desc1 else max_bytes)"
  have nb: "num_bytes = min (desc_seg_size ram desc_addr) max_bytes"
    by (auto simp: num_bytes_def desc1_def desc_seg_size_def Let_def min_def)
  have da: "daddr desc1 = daddr (desc_of_bytes (cpu_physical_memory_read ram desc_addr 16))"
    by (simp add: desc1_def)
  have le: "num_bytes \<le> 1024" using assms(2) by (simp add: nb)
  have "fst (snd (process_desc_loop sd is_write desc1 num_bytes 0 (sdbus s) ram)) =
     sdbus s @ map WriteData
       (cpu_physical_memory_read ram
          (ucast (daddr (desc_of_bytes (cpu_physical_memory_read ram desc_addr 16))
                  AND DESC_SIZE_MASK))
          (unat num_bytes))"
    using assms(1) by (simp add: process_desc_loop_one_chunk[OF le] da)
  then show ?thesis
    unfolding nb[symmetric]
    by (auto simp: aw_h3_sdhost_process_desc_def Let_def desc1_def num_bytes_def)
qed

lemma process_desc_write_ram:
  assumes "is_write" "16 \<le> unat (x - desc_addr)"
  shows "snd (snd (snd (aw_h3_sdhost_process_desc sd s ram desc_addr is_write max_bytes))) x =
           ram x"
proof -
  have l: "length (bytes_of_desc d) = 16" for d
    by (simp add: bytes_of_desc_def le32_bytes_def)
  have w: "cpu_physical_memory_write desc_addr (bytes_of_desc d) m x = m x" for d m
    using assms(2) mem_write_at[of "bytes_of_desc d" desc_addr m x] by (simp add: l)
  show ?thesis
    using assms(1)
    by (simp add: aw_h3_sdhost_process_desc_def Let_def w process_desc_loop_write_ram)
qed

lemma process_desc_read_ram:
  assumes "\<not> is_write" "min (desc_seg_size ram desc_addr) max_bytes \<le> 1024"
    "16 \<le> unat (x - desc_addr)"
  shows "snd (snd (snd (aw_h3_sdhost_process_desc sd s ram desc_addr is_write max_bytes))) x =
     (if unat (x - ucast (daddr (desc_of_bytes (cpu_physical_memory_read ram desc_addr 16))
                          AND DESC_SIZE_MASK))
           < unat (min (desc_seg_size ram desc_addr) max_bytes)
      then fst (sdbus_read_buf sd (unat (min (desc_seg_size ram desc_addr) max_bytes)) (sdbus s)) !
             unat (x - ucast (daddr (desc_of_bytes (cpu_physical_memory_read ram desc_addr 16))
                              AND DESC_SIZE_MASK))
      else ram x)"
proof -
  define desc1 where "desc1 =
    (if dsize (desc_of_bytes (cpu_physical_memory_read ram desc_addr 16)) = 0
     then (desc_of_bytes (cpu_physical_memory_read ram desc_addr 16))\<lparr>dsize := 0xffff + 1\<rparr>
     else desc_of_bytes (cpu_physical_memory_read ram desc_addr 16))"
  define num_bytes where "num_bytes = (if dsize desc1 < max_bytes then dsize desc1 else max_bytes)"
  define a where "a = (ucast (daddr desc1 AND DESC_SIZE_MASK) :: hwaddr)"
  define buf where "buf = fst (sdbus_read_buf sd (unat num_bytes) (sdbus s))"
  have nb: "num_bytes = min (desc_seg_size ram desc_addr) max_bytes"
    by (auto simp: num_bytes_def desc1_def desc_seg_size_def Let_def min_def)
  have da: "daddr desc1 = daddr (desc_of_bytes (cpu_physical_memory_read ram desc_addr 16))"
    by (simp add: desc1_def)
  have le: "num_bytes \<le> 1024" using assms(2) by (simp add: nb)
  have l: "length (bytes_of_desc d) = 16" for d
    by (simp add: bytes_of_desc_def le32_bytes_def)
  have w: "cpu_physical_memory_write desc_addr (bytes_of_desc d) m x = m x" for d m
    using assms(3) mem_write_at[of "bytes_of_desc d" desc_addr m x] by (simp add: l)
  have lb: "length buf = unat num_bytes"
    by (simp add: buf_def sdbus_read_buf_bus)
  have "unat num_bytes < 2 ^ 32" using unsigned_less[of num_bytes] by simp
  then have lb64: "length buf < 2 ^ 64" unfolding lb by simp
  have loop: "snd (snd (process_desc_loop sd is_write desc1 num_bytes 0 (sdbus s) ram)) =
     cpu_physical_memory_write a buf ram"
    using assms(1) by (simp add: process_desc_loop_one_chunk[OF le] a_def buf_def)
  have "snd (snd (snd (aw_h3_sdhost_process_desc sd s ram desc_addr is_write max_bytes))) x =
     snd (snd (process_desc_loop sd is_write desc1 num_bytes 0 (sdbus s) ram)) x"
    by (auto simp: aw_h3_sdhost_process_desc_def Let_def w desc1_def num_bytes_def)
  also have "\<dots> = cpu_physical_memory_write a buf ram x"
    by (simp add: loop)
  also have "\<dots> = (if unat (x - a) < unat num_bytes then buf ! unat (x - a) else ram x)"
    by (simp add: mem_write_at[OF lb64] lb)
  finally show ?thesis
    unfolding buf_def a_def da nb .
qed

lemma dma_loop_body_parts:
  "fst (dma_loop_body sd is_write desc_addr s ram) =
     fst (snd (aw_h3_sdhost_process_desc sd s ram desc_addr is_write (byte_count s)))"
  "snd (snd (dma_loop_body sd is_write desc_addr s ram)) =
     snd (snd (snd (aw_h3_sdhost_process_desc sd s ram desc_addr is_write (byte_count s))))"
  "sdbus (fst (snd (dma_loop_body sd is_write desc_addr s ram))) =
     sdbus (fst (snd (snd (aw_h3_sdhost_process_desc sd s ram desc_addr is_write (byte_count s)))))"
  by (simp_all add: dma_loop_body_def Let_def update_transfer_cnt_fields)

section \<open>Where the descriptor walk stops\<close>

lemma dma_passes_Suc:
  "byte_count s \<noteq> 0 \<Longrightarrow>
   dma_passes (Suc n) sd is_write desc_addr s ram =
     (if dstatus (fst (dma_loop_body sd is_write desc_addr s ram)) AND DESC_STATUS_LAST \<noteq> 0
      then [dma_loop_body sd is_write desc_addr s ram]
      else dma_loop_body sd is_write desc_addr s ram #
           dma_passes n sd is_write
             (ucast (dnext (fst (dma_loop_body sd is_write desc_addr s ram))))
             (fst (snd (dma_loop_body sd is_write desc_addr s ram)))
             (snd (snd (dma_loop_body sd is_write desc_addr s ram))))"
  by (simp add: Let_def word_gt_0)

lemma dma_passes_zero: "byte_count s = 0 \<Longrightarrow> dma_passes n sd is_write desc_addr s ram = []"
  by (cases n) simp_all

lemma dma_loop_zero: "byte_count s = 0 \<Longrightarrow> dma_loop sd is_write desc_addr s ram = Some (s, ram)"
  by (subst dma_loop.simps) simp

lemma dma_loop_step:
  "byte_count s \<noteq> 0 \<Longrightarrow>
   dma_loop sd is_write desc_addr s ram =
     (if dstatus (fst (dma_loop_body sd is_write desc_addr s ram)) AND DESC_STATUS_LAST \<noteq> 0
      then Some (snd (dma_loop_body sd is_write desc_addr s ram))
      else dma_loop sd is_write
             (ucast (dnext (fst (dma_loop_body sd is_write desc_addr s ram))))
             (fst (snd (dma_loop_body sd is_write desc_addr s ram)))
             (snd (snd (dma_loop_body sd is_write desc_addr s ram))))"
  by (subst dma_loop.simps) (simp add: Let_def word_gt_0)

lemma sub_sub_unat:
  "c \<le> b \<Longrightarrow> b \<le> a \<Longrightarrow> unat (a - b) + unat (b - c) = unat (a - (c :: u32))"
proof -
  assume cb: "c \<le> b" and ba: "b \<le> a"
  have ca: "c \<le> a" using cb ba by simp
  have "unat c \<le> unat b" "unat b \<le> unat a"
    using cb ba by (simp_all add: word_le_nat_alt)
  then show ?thesis
    by (simp add: unat_sub[OF cb] unat_sub[OF ba] unat_sub[OF ca])
qed

lemma sub_min_self: "m \<le> a \<Longrightarrow> a - (a - m) = (m :: u32)"
  by simp

lemma dma_walk_props:
  "unat (byte_count s) \<le> n \<Longrightarrow>
   dma_loop sd is_write desc_addr s ram =
     Some (walk_result s ram (dma_passes n sd is_write desc_addr s ram)) \<and>
   length (dma_passes n sd is_write desc_addr s ram) \<le> unat (byte_count s) \<and>
   byte_count (fst (walk_result s ram (dma_passes n sd is_write desc_addr s ram)))
     \<le> byte_count s \<and>
   (byte_count (fst (walk_result s ram (dma_passes n sd is_write desc_addr s ram))) = 0 \<or>
    (dma_passes n sd is_write desc_addr s ram \<noteq> [] \<and>
     dstatus (fst (last (dma_passes n sd is_write desc_addr s ram))) AND DESC_STATUS_LAST \<noteq> 0)) \<and>
   (\<forall>p \<in> set (butlast (dma_passes n sd is_write desc_addr s ram)).
      dstatus (fst p) AND DESC_STATUS_LAST = 0 \<and> byte_count (fst (snd p)) \<noteq> 0) \<and>
   (\<forall>p \<in> set (dma_passes n sd is_write desc_addr s ram).
      byte_count (fst (snd p)) < byte_count s) \<and>
   sorted_wrt (\<lambda>x y. y < x)
     (map (\<lambda>p. byte_count (fst (snd p))) (dma_passes n sd is_write desc_addr s ram)) \<and>
   (\<exists>bs. length bs =
           unat (byte_count s -
                 byte_count (fst (walk_result s ram (dma_passes n sd is_write desc_addr s ram)))) \<and>
         sdbus (fst (walk_result s ram (dma_passes n sd is_write desc_addr s ram))) =
           sdbus s @ map (bus_call is_write) bs)"
proof (induction n arbitrary: s ram desc_addr)
  case 0
  then have z: "byte_count s = 0" by (simp add: unat_eq_0)
  show ?case
    by (simp add: dma_loop_zero[OF z] walk_result_def z)
next
  case (Suc n)
  show ?case
  proof (cases "byte_count s = 0")
    case True
    show ?thesis
      by (simp add: dma_loop_zero[OF True] dma_passes_zero[OF True] walk_result_def True
          del: dma_passes.simps)
  next
    case nz: False
    define b where "b = dma_loop_body sd is_write desc_addr s ram"
    define s2 where "s2 = fst (snd b)"
    define ram2 where "ram2 = snd (snd b)"
    define a2 where "a2 = (ucast (dnext (fst b)) :: hwaddr)"
    have b_eq: "snd b = (s2, ram2)" by (simp add: s2_def ram2_def)
    have dec: "unat (byte_count s2) < unat (byte_count s)"
      unfolding s2_def b_def by (rule dma_loop_body_decreases[OF nz])
    have lt: "byte_count s2 < byte_count s" using dec by (simp add: word_less_nat_alt)
    have le: "byte_count s2 \<le> byte_count s" using lt by simp
    have bc2: "byte_count s2 = byte_count s - min (desc_seg_size ram desc_addr) (byte_count s)"
      by (simp add: s2_def b_def dma_loop_body_frame)
    have diff: "byte_count s - byte_count s2 = min (desc_seg_size ram desc_addr) (byte_count s)"
      unfolding bc2 by (rule sub_min_self) simp
    from dma_loop_body_bus[of ram desc_addr s sd is_write]
    obtain bs0 where bs0': "length bs0 = unat (min (desc_seg_size ram desc_addr) (byte_count s))"
      "sdbus (fst (snd (dma_loop_body sd is_write desc_addr s ram))) =
         sdbus s @ map (bus_call is_write) bs0"
      by blast
    have bs0: "length bs0 = unat (byte_count s - byte_count s2)"
      "sdbus s2 = sdbus s @ map (bus_call is_write) bs0"
      unfolding diff using bs0' by (simp_all add: s2_def b_def)
    have pos: "1 \<le> unat (byte_count s)" using nz by (simp add: unat_gt_0 Suc_leI)
    show ?thesis
    proof (cases "dstatus (fst b) AND DESC_STATUS_LAST \<noteq> 0")
      case True
      have ps: "dma_passes (Suc n) sd is_write desc_addr s ram = [b]"
        using True by (simp add: dma_passes_Suc[OF nz] b_def[symmetric] del: dma_passes.simps)
      have lp: "dma_loop sd is_write desc_addr s ram = Some (snd b)"
        using True by (simp add: dma_loop_step[OF nz] b_def[symmetric])
      have wr1: "walk_result s ram [b] = (s2, ram2)"
        by (simp add: walk_result_def b_eq)
      have d8: "\<exists>bs. length bs = unat (byte_count s - byte_count s2) \<and>
         sdbus s2 = sdbus s @ map (bus_call is_write) bs"
        using bs0 by blast
      show ?thesis
        unfolding ps lp wr1 b_eq
        using True le lt pos d8
        by (simp add: s2_def)
    next
      case nolast: False
      have ps: "dma_passes (Suc n) sd is_write desc_addr s ram =
                  b # dma_passes n sd is_write a2 s2 ram2"
        using nolast
        by (simp add: dma_passes_Suc[OF nz] a2_def s2_def ram2_def b_def del: dma_passes.simps)
      have lp: "dma_loop sd is_write desc_addr s ram = dma_loop sd is_write a2 s2 ram2"
        using nolast
        by (simp add: dma_loop_step[OF nz] a2_def s2_def ram2_def b_def)
      define ps' where "ps' = dma_passes n sd is_write a2 s2 ram2"
      define s' where "s' = fst (walk_result s2 ram2 ps')"
      have fuel: "unat (byte_count s2) \<le> n" using dec Suc.prems by simp
      note ih = Suc.IH[OF fuel, of a2 ram2, folded ps'_def, folded s'_def]
      have wr: "walk_result s ram (b # ps') = walk_result s2 ram2 ps'"
        by (simp add: walk_result_def b_eq)
      from ih obtain bs1 where bs1: "length bs1 = unat (byte_count s2 - byte_count s')"
        "sdbus s' = sdbus s2 @ map (bus_call is_write) bs1"
        by blast
      have le': "byte_count s' \<le> byte_count s2" using ih by blast
      have len: "length (bs0 @ bs1) = unat (byte_count s - byte_count s')"
        using bs0(1) bs1(1) sub_sub_unat[OF le' le] by simp
      have bus: "sdbus s' = sdbus s @ map (bus_call is_write) (bs0 @ bs1)"
        using bs0(2) bs1(2) by simp
      have c1: "dma_loop sd is_write desc_addr s ram = Some (walk_result s ram (b # ps'))"
        unfolding lp wr using ih by blast
      have c2: "length (b # ps') \<le> unat (byte_count s)"
        using ih dec by simp
      have c3: "byte_count (fst (walk_result s ram (b # ps'))) \<le> byte_count s"
        unfolding wr using le' le by (simp add: s'_def)
      have c4: "byte_count (fst (walk_result s ram (b # ps'))) = 0 \<or>
          (b # ps' \<noteq> [] \<and> dstatus (fst (last (b # ps'))) AND DESC_STATUS_LAST \<noteq> 0)"
        unfolding wr using ih by (auto simp: s'_def)
      have nz2: "ps' \<noteq> [] \<Longrightarrow> byte_count s2 \<noteq> 0"
        using dma_passes_zero[of s2 n sd is_write a2 ram2] by (auto simp: ps'_def)
      have bl': "\<forall>p \<in> set (butlast ps').
          dstatus (fst p) AND DESC_STATUS_LAST = 0 \<and> byte_count (fst (snd p)) \<noteq> 0"
        using ih by blast
      have c5: "\<forall>p \<in> set (butlast (b # ps')).
          dstatus (fst p) AND DESC_STATUS_LAST = 0 \<and> byte_count (fst (snd p)) \<noteq> 0"
        using bl' nolast nz2 by (auto simp: s2_def)
      have all': "\<forall>p \<in> set ps'. byte_count (fst (snd p)) < byte_count s2"
        using ih by blast
      have c6: "\<forall>p \<in> set (b # ps'). byte_count (fst (snd p)) < byte_count s"
        using all' lt by (auto simp: s2_def)
      have c7: "sorted_wrt (\<lambda>x y. y < x) (map (\<lambda>p. byte_count (fst (snd p))) (b # ps'))"
        using ih all' by (auto simp: s2_def)
      have c8: "\<exists>bs. length bs = unat (byte_count s - byte_count (fst (walk_result s ram (b # ps')))) \<and>
         sdbus (fst (walk_result s ram (b # ps'))) = sdbus s @ map (bus_call is_write) bs"
        unfolding wr using len bus by (intro exI[of _ "bs0 @ bs1"]) (simp add: s'_def)
      show ?thesis
        unfolding ps ps'_def[symmetric]
        by (intro conjI c1 c2 c3 c4 c5 c6 c7 c8)
    qed
  qed
qed

lemma dma_walk_result:
  assumes "byte_count s \<noteq> 0" "block_size s \<noteq> 0" "global_ctl s AND SD_GCTL_DMA_ENB \<noteq> 0"
    and "command s AND SD_CMDR_WRITE \<noteq> 0 \<or> sdbus_data_ready sd (sdbus s)"
  shows "\<exists>s'. aw_h3_sdhost_dma sd s ram =
        Some (s', snd (walk_result s ram
           (dma_walk sd (command s AND SD_CMDR_WRITE \<noteq> 0) (ucast (desc_base s)) s ram))) \<and>
      byte_count s' = byte_count (fst (walk_result s ram
           (dma_walk sd (command s AND SD_CMDR_WRITE \<noteq> 0) (ucast (desc_base s)) s ram))) \<and>
      sdbus s' = sdbus (fst (walk_result s ram
           (dma_walk sd (command s AND SD_CMDR_WRITE \<noteq> 0) (ucast (desc_base s)) s ram)))"
proof -
  define wr where "wr = walk_result s ram
           (dma_walk sd (command s AND SD_CMDR_WRITE \<noteq> 0) (ucast (desc_base s)) s ram)"
  have lp: "dma_loop sd (command s AND SD_CMDR_WRITE \<noteq> 0) (ucast (desc_base s)) s ram = Some wr"
    using dma_walk_props[where n = "unat (byte_count s)" and s = s and sd = sd and ram = ram
        and is_write = "command s AND SD_CMDR_WRITE \<noteq> 0"
        and desc_addr = "ucast (desc_base s)", OF order_refl]
    by (simp add: wr_def dma_walk_def)
  obtain s1 ram1 where wr1: "wr = (s1, ram1)" by (cases wr)
  show ?thesis
    unfolding wr_def[symmetric]
    using assms lp by (auto simp: aw_h3_sdhost_dma_def Let_def wr1)
qed

section \<open>The two-descriptor chain, evaluated\<close>

lemma chain_state_fields:
  "byte_count chain_state = 10" "block_size chain_state = 0x200"
  "global_ctl chain_state = 0x320" "command chain_state = 0x400"
  "desc_base chain_state = 0" "sdbus chain_state = []"
  by (simp_all add: chain_state_def aw_h3_sdhost_reset_def zeroed_state_def)

lemma chain_descs:
  "desc_of_bytes (cpu_physical_memory_read chain_ram 0 16) =
     \<lparr>dstatus = 0, dsize = 4, daddr = 0x100, dnext = 0x20\<rparr>"
  "desc_of_bytes (cpu_physical_memory_read chain_ram 0x20 16) =
     \<lparr>dstatus = 0, dsize = 0, daddr = 0x200, dnext = 0x20\<rparr>"
  by (simp_all add: desc_of_bytes_def cpu_physical_memory_read_def chain_ram_def le32_def upt_rec
      word_le_nat_alt word_less_nat_alt)

lemma dma_passes_unfold:
  "0 < n \<Longrightarrow>
   dma_passes n sd is_write desc_addr s ram =
     (if byte_count s > 0 then
        (let b = dma_loop_body sd is_write desc_addr s ram
         in if dstatus (fst b) AND DESC_STATUS_LAST \<noteq> 0
            then [b]
            else b # dma_passes (n - 1) sd is_write (ucast (dnext (fst b))) (fst (snd b))
                       (snd (snd b)))
      else [])"
  by (cases n) (simp_all add: Let_def)

lemma chain_walk_eval:
  "map (\<lambda>p. (dsize (fst p), dstatus (fst p) AND DESC_STATUS_LAST, dnext (fst p),
             byte_count (fst (snd p)), sdbus (fst (snd p))))
     (dma_walk data_card True 0 chain_state chain_ram) =
   [(4, 0, 0x20, 6, [WriteData 0x11, WriteData 0x11, WriteData 0x11, WriteData 0x11]),
    (65536, 0, 0x20, 0,
     [WriteData 0x11, WriteData 0x11, WriteData 0x11, WriteData 0x11, WriteData 0x22,
      WriteData 0x22, WriteData 0x22, WriteData 0x22, WriteData 0x22, WriteData 0x22])]"
  by (simp add: dma_walk_def chain_state_def aw_h3_sdhost_reset_def zeroed_state_def
        dma_passes_unfold
        dma_loop_body_def aw_h3_sdhost_process_desc_def Let_def process_desc_loop_one_chunk
        aw_h3_sdhost_update_transfer_cnt_def desc_of_bytes_def bytes_of_desc_def le32_def
        le32_bytes_def cpu_physical_memory_read_def chain_ram_def upt_rec
        word_le_nat_alt word_less_nat_alt)

lemma chain_read_state_fields:
  "byte_count chain_read_state = 10" "command chain_read_state = 0"
  "sdbus chain_read_state = []"
  by (simp_all add: chain_read_state_def chain_state_fields)

lemma chain_seg_sizes:
  "desc_seg_size chain_ram 0 = 4" "desc_seg_size chain_ram 0x20 = 65536"
  by (simp_all add: desc_seg_size_def chain_descs)

lemma chain_data:
  "cpu_physical_memory_read chain_ram 0x100 4 = [0x11, 0x11, 0x11, 0x11]"
  by (simp add: cpu_physical_memory_read_def chain_ram_def upt_rec
      word_le_nat_alt word_less_nat_alt)

lemma data_card_read_buf:
  "fst (sdbus_read_buf data_card 4 []) = [0x5A, 0x5A, 0x5A, 0x5A]"
  by (simp add: numeral_eq_Suc sdbus_read_data_def data_card_def)

lemma chain_walk_result:
  "byte_count (fst (walk_result chain_state chain_ram (dma_walk data_card True 0 chain_state chain_ram))) = 0"
  "sdbus (fst (walk_result chain_state chain_ram (dma_walk data_card True 0 chain_state chain_ram))) =
     [WriteData 0x11, WriteData 0x11, WriteData 0x11, WriteData 0x11, WriteData 0x22,
      WriteData 0x22, WriteData 0x22, WriteData 0x22, WriteData 0x22, WriteData 0x22]"
  "dsize (desc_of_bytes (cpu_physical_memory_read
      (snd (walk_result chain_state chain_ram (dma_walk data_card True 0 chain_state chain_ram))) 0x20 16)) = 65536"
  by (simp_all add: walk_result_def dma_walk_def chain_state_def aw_h3_sdhost_reset_def zeroed_state_def
        dma_passes_unfold dma_loop_body_def aw_h3_sdhost_process_desc_def Let_def
        process_desc_loop_one_chunk aw_h3_sdhost_update_transfer_cnt_def desc_of_bytes_def
        bytes_of_desc_def le32_def le32_bytes_def cpu_physical_memory_read_def chain_ram_def
        upt_rec word_le_nat_alt word_less_nat_alt)

lemma chain_walk_first:
  "hd (dma_walk data_card True 0 chain_state chain_ram) \<in> set (butlast (dma_walk data_card True 0 chain_state chain_ram))"
  by (simp add: dma_walk_def chain_state_def aw_h3_sdhost_reset_def zeroed_state_def
        dma_passes_unfold dma_loop_body_def aw_h3_sdhost_process_desc_def Let_def
        process_desc_loop_one_chunk aw_h3_sdhost_update_transfer_cnt_def desc_of_bytes_def
        bytes_of_desc_def le32_def le32_bytes_def cpu_physical_memory_read_def chain_ram_def
        upt_rec word_le_nat_alt word_less_nat_alt)

section \<open>MMIO writes return; the reset bits of GCTL stay clear\<close>

lemma cmdr_load_returns:
  "\<exists>s2 ram2. aw_h3_sdhost_dma sd (aw_h3_sdhost_send_command sd (s\<lparr>command := c\<rparr>)) ram = Some (s2, ram2) \<and>
     global_ctl s2 = global_ctl s \<and> command s2 AND SD_CMDR_LOAD = 0"
proof -
  let ?s1 = "aw_h3_sdhost_send_command sd (s\<lparr>command := c\<rparr>)"
  obtain s2 ram2 where d: "aw_h3_sdhost_dma sd ?s1 ram = Some (s2, ram2)"
    "global_ctl s2 = global_ctl ?s1" "command s2 = command ?s1"
    using dma_returns[of sd ?s1 ram] by blast
  have "command ?s1 AND SD_CMDR_LOAD = 0"
    unfolding send_command_fields by (rule not_load_and_load)
  then show ?thesis using d by (simp add: send_command_fields)
qed

lemma write_returns:
  "\<exists>s' ram'. aw_h3_sdhost_write sd s ram offset value = Some (s', ram') \<and>
     global_ctl s' =
       (if offset = REG_SD_GCTL
        then ucast value AND NOT (SD_GCTL_DMA_RST OR SD_GCTL_FIFO_RST OR SD_GCTL_SOFT_RST)
        else global_ctl s)"
proof (cases "offset = REG_SD_CMDR")
  case True
  obtain s2 ram2 where
    "aw_h3_sdhost_dma sd (aw_h3_sdhost_send_command sd (s\<lparr>command := ucast value\<rparr>)) ram = Some (s2, ram2)"
    "global_ctl s2 = global_ctl s"
    using cmdr_load_returns[where sd = sd and s = s and c = "ucast value" and ram = ram] by blast
  then show ?thesis using True
    by (simp add: aw_h3_sdhost_write_def Let_def update_irq_fields auto_stop_fields)
next
  case False
  then show ?thesis
    by (simp add: aw_h3_sdhost_write_def Let_def update_irq_fields auto_stop_fields
        update_transfer_cnt_frame)
qed

lemma write_cmdr_load_clear:
  "\<exists>s' ram'. aw_h3_sdhost_write sd s ram REG_SD_CMDR value = Some (s', ram') \<and>
     command s' AND SD_CMDR_LOAD = 0"
proof (cases "value AND scast SD_CMDR_LOAD = 0")
  case True
  have "(ucast value :: u32) AND SD_CMDR_LOAD = 0"
    by (rule load_test_clear[OF True])
  then show ?thesis using True
    by (simp add: aw_h3_sdhost_write_def Let_def update_irq_fields)
next
  case False
  obtain s2 ram2 where
    "aw_h3_sdhost_dma sd (aw_h3_sdhost_send_command sd (s\<lparr>command := ucast value\<rparr>)) ram = Some (s2, ram2)"
    "command s2 AND SD_CMDR_LOAD = 0"
    using cmdr_load_returns[where sd = sd and s = s and c = "ucast value" and ram = ram] by blast
  then show ?thesis using False
    by (simp add: aw_h3_sdhost_write_def Let_def update_irq_fields auto_stop_fields)
qed

lemma read_global_ctl: "global_ctl (snd (aw_h3_sdhost_read sd s offset)) = global_ctl s"
  by (simp add: aw_h3_sdhost_read_def Let_def update_irq_fields auto_stop_fields
      update_transfer_cnt_frame)

lemma reachable_gctl:
  "reachable sd s \<Longrightarrow>
   global_ctl s AND (SD_GCTL_DMA_RST OR SD_GCTL_FIFO_RST OR SD_GCTL_SOFT_RST) = 0"
proof (induction rule: reachable.induct)
  case (reach_reset s)
  then show ?case by (simp add: aw_h3_sdhost_reset_def)
next
  case (reach_read s offset)
  then show ?case by (simp only: read_global_ctl)
next
  case (reach_write s ram offset "value" s' ram')
  from write_returns[of sd s ram offset "value"] reach_write.hyps(2)
  have "global_ctl s' =
       (if offset = REG_SD_GCTL
        then ucast value AND NOT (SD_GCTL_DMA_RST OR SD_GCTL_FIFO_RST OR SD_GCTL_SOFT_RST)
        else global_ctl s)" by auto
  then show ?case using reach_write.IH gctl_rst_clear[of "ucast value"]
    by (simp split: if_splits)
next
  case (reach_inserted s inserted)
  then show ?case by (simp add: aw_h3_sdhost_set_inserted_def update_irq_fields)
qed

lemma read_gctl: "fst (aw_h3_sdhost_read sd s REG_SD_GCTL) = ucast (global_ctl s)"
  by (simp add: aw_h3_sdhost_read_def)

lemma read_cmdr: "fst (aw_h3_sdhost_read sd s REG_SD_CMDR) = ucast (command s)"
  by (simp add: aw_h3_sdhost_read_def)

section \<open>The FIFO register and the completion bits\<close>

lemma fifo_write_bits:
  "\<exists>s'. aw_h3_sdhost_write sd s ram REG_SD_FIFO value = Some (s', ram) \<and>
     (transfer_cnt s' = 0 \<longrightarrow>
        irq_status s' AND (SD_RISR_DATA_COMPLETE OR SD_RISR_AUTOCMD_DONE) =
          SD_RISR_DATA_COMPLETE OR SD_RISR_AUTOCMD_DONE)"
proof -
  define s1 where "s1 = aw_h3_sdhost_update_transfer_cnt
     (s\<lparr>sdbus := sdbus_write_data (sdbus_write_data (sdbus_write_data (sdbus_write_data (sdbus s)
        (ucast (value AND 0xff))) (ucast (drop_bit 8 value AND 0xff)))
        (ucast (drop_bit 16 value AND 0xff))) (ucast (drop_bit 24 value AND 0xff))\<rparr>) 4"
  have w: "aw_h3_sdhost_write sd s ram REG_SD_FIFO value =
     Some (aw_h3_sdhost_update_irq (aw_h3_sdhost_auto_stop sd s1), ram)"
    by (simp add: aw_h3_sdhost_write_def Let_def s1_def)
  have "transfer_cnt s1 = 0 \<longrightarrow>
     irq_status (aw_h3_sdhost_auto_stop sd s1) AND (SD_RISR_DATA_COMPLETE OR SD_RISR_AUTOCMD_DONE) =
          SD_RISR_DATA_COMPLETE OR SD_RISR_AUTOCMD_DONE"
    unfolding s1_def
    by (intro impI auto_stop_keeps_bits update_transfer_cnt_bits)
  then show ?thesis
    unfolding w by (simp add: update_irq_fields auto_stop_fields)
qed

lemma fifo_read_bits:
  "sdbus_data_ready sd (sdbus s) \<Longrightarrow>
   transfer_cnt (snd (aw_h3_sdhost_read sd s REG_SD_FIFO)) = 0 \<Longrightarrow>
   irq_status (snd (aw_h3_sdhost_read sd s REG_SD_FIFO)) AND
     (SD_RISR_DATA_COMPLETE OR SD_RISR_AUTOCMD_DONE) = SD_RISR_DATA_COMPLETE OR SD_RISR_AUTOCMD_DONE"
proof -
  assume rdy: "sdbus_data_ready sd (sdbus s)"
  define s1 where "s1 = aw_h3_sdhost_update_transfer_cnt
     (s\<lparr>sdbus := snd (sdbus_read_data sd (snd (sdbus_read_data sd (snd (sdbus_read_data sd
         (snd (sdbus_read_data sd (sdbus s))))))))\<rparr>) 4"
  have r: "snd (aw_h3_sdhost_read sd s REG_SD_FIFO) =
     aw_h3_sdhost_update_irq (aw_h3_sdhost_auto_stop sd s1)"
    using rdy by (simp add: aw_h3_sdhost_read_def Let_def s1_def)
  assume "transfer_cnt (snd (aw_h3_sdhost_read sd s REG_SD_FIFO)) = 0"
  then have "transfer_cnt s1 = 0"
    unfolding r by (simp add: update_irq_fields auto_stop_fields)
  then have "irq_status (aw_h3_sdhost_auto_stop sd s1) AND (SD_RISR_DATA_COMPLETE OR SD_RISR_AUTOCMD_DONE) =
          SD_RISR_DATA_COMPLETE OR SD_RISR_AUTOCMD_DONE"
    unfolding s1_def
    by (intro auto_stop_keeps_bits update_transfer_cnt_bits)
  then show ?thesis
    unfolding r by (simp add: update_irq_fields)
qed

lemma pio_write_eval:
  "aw_h3_sdhost_write no_card pio_state zero_ram REG_SD_FIFO 0xDEADBEEF =
     Some (pio_state\<lparr>transfer_cnt := 0, irq_status := 0x4008,
        sdbus := [WriteData 0xEF, WriteData 0xBE, WriteData 0xAD, WriteData 0xDE]\<rparr>, zero_ram)"
  by (simp add: aw_h3_sdhost_write_def Let_def pio_state_def aw_h3_sdhost_reset_def
      zeroed_state_def aw_h3_sdhost_update_transfer_cnt_def aw_h3_sdhost_auto_stop_def
      aw_h3_sdhost_update_irq_def sdbus_write_data_def)

lemma pio_read_eval:
  "snd (aw_h3_sdhost_read data_card pio_state REG_SD_FIFO) =
     pio_state\<lparr>transfer_cnt := 0, irq_status := 0x4008,
        sdbus := [ReadData, ReadData, ReadData, ReadData]\<rparr>"
  by (simp add: aw_h3_sdhost_read_def Let_def pio_state_def aw_h3_sdhost_reset_def
      zeroed_state_def aw_h3_sdhost_update_transfer_cnt_def aw_h3_sdhost_auto_stop_def
      aw_h3_sdhost_update_irq_def sdbus_read_data_def sdbus_data_ready_def data_card_def)

lemma reachable_acked: "reachable no_card acked_state"
proof -
  have r0: "reachable no_card (aw_h3_sdhost_reset zeroed_state)"
    by (rule reach_reset)
  have w1: "aw_h3_sdhost_write no_card (aw_h3_sdhost_reset zeroed_state) zero_ram REG_SD_BYCR 4
              = Some (pio_state, zero_ram)"
    by (simp add: aw_h3_sdhost_write_def pio_state_def)
  have w2: "aw_h3_sdhost_write no_card pio_state zero_ram REG_SD_FIFO 0xDEADBEEF =
     Some (pio_state\<lparr>transfer_cnt := 0, irq_status := 0x4008,
        sdbus := [WriteData 0xEF, WriteData 0xBE, WriteData 0xAD, WriteData 0xDE]\<rparr>, zero_ram)"
    by (rule pio_write_eval)
  have w3: "aw_h3_sdhost_write no_card
       (pio_state\<lparr>transfer_cnt := 0, irq_status := 0x4008,
          sdbus := [WriteData 0xEF, WriteData 0xBE, WriteData 0xAD, WriteData 0xDE]\<rparr>)
       zero_ram REG_SD_RISR 0x4008 = Some (acked_state, zero_ram)"
    by (simp add: aw_h3_sdhost_write_def acked_state_def aw_h3_sdhost_update_irq_def
        pio_state_def aw_h3_sdhost_reset_def zeroed_state_def)
  from reach_write[OF reach_write[OF reach_write[OF r0 w1] w2] w3] show ?thesis .
qed

section \<open>Claims about the command engine\<close>

text \<open>
  C1. The claim: with \<open>RESPONSE\<close> set, a failed submit, a length of 0, a length other
  than 16 under \<open>RESPONSE_LONG\<close>, or a length other than 4 without
  \<open>RESPONSE_LONG\<close> sets \<open>NO_RESPONSE\<close> and leaves \<open>CMD_COMPLETE\<close> and the
  response registers alone. The code does so except in one case, evaluated here: the
  command register holds \<open>LOAD | RESPONSE | CMD2\<close> with \<open>RESPONSE_LONG\<close> clear and
  the card answers with 16 bytes. The response registers are overwritten,
  \<open>CMD_COMPLETE\<close> is set and \<open>NO_RESPONSE\<close> is not, both in the command engine
  and through a write of \<open>0x80000042\<close> to CMDR.
\<close>

theorem short_command_takes_long_response:
  "command short_cmd_state AND SD_CMDR_RESPONSE \<noteq> 0 \<and>
   command short_cmd_state AND SD_CMDR_RESPONSE_LONG = 0 \<and>
   command short_cmd_state AND SD_CMDR_CLKCHANGE = 0 \<and>
   fst (card_do_command long_card (sdbus short_cmd_state) \<lparr>cmd = 2, arg = 0\<rparr>) = 16 \<and>
   irq_status (aw_h3_sdhost_send_command long_card short_cmd_state) AND SD_RISR_NO_RESPONSE = 0 \<and>
   irq_status (aw_h3_sdhost_send_command long_card short_cmd_state) AND SD_RISR_CMD_COMPLETE
     = SD_RISR_CMD_COMPLETE \<and>
   response short_cmd_state 0 = 0 \<and>
   response (aw_h3_sdhost_send_command long_card short_cmd_state) 0 = 0x0C0D0E0F \<and>
   map_option (irq_status \<circ> fst)
     (aw_h3_sdhost_write long_card (aw_h3_sdhost_reset zeroed_state) zero_ram REG_SD_CMDR 0x80000042)
     = Some SD_RISR_CMD_COMPLETE"
  by (simp add: short_cmd_state_def long_card_def aw_h3_sdhost_send_command_def
        sdbus_do_command_def Let_def aw_h3_sdhost_reset_def zeroed_state_def ldl_be_p_def
        upt_rec aw_h3_sdhost_write_def aw_h3_sdhost_dma_def aw_h3_sdhost_auto_stop_def
        aw_h3_sdhost_update_irq_def)

text \<open>
  C7. A command with \<open>RESPONSE\<close> and \<open>RESPONSE_LONG\<close> set that is put on the bus
  (\<open>CLKCHANGE\<close> clear) and gets 16 bytes back fills the response registers in reversed
  word order with big-endian loads: \<open>response[0]\<close> from bytes 12..15, \<open>response[1]\<close>
  from 8..11, \<open>response[2]\<close> from 4..7, \<open>response[3]\<close> from 0..3, and sets
  \<open>CMD_COMPLETE\<close>. For the bytes \<open>0x00 .. 0x0F\<close> the four loads are
  \<open>0x0C0D0E0F\<close>, \<open>0x08090A0B\<close>, \<open>0x04050607\<close>, \<open>0x00010203\<close>.
\<close>

theorem long_response_reversed:
  assumes "command s AND SD_CMDR_RESPONSE \<noteq> 0" and "command s AND SD_CMDR_RESPONSE_LONG \<noteq> 0"
    and "command s AND SD_CMDR_CLKCHANGE = 0"
    and "card_do_command sd (sdbus s)
           \<lparr>cmd = ucast (command s AND SD_CMDR_CMDID_MASK), arg = command_arg s\<rparr> = (16, resp)"
  shows "response (aw_h3_sdhost_send_command sd s) 0 = ldl_be_p resp 12 \<and>
         response (aw_h3_sdhost_send_command sd s) 1 = ldl_be_p resp 8 \<and>
         response (aw_h3_sdhost_send_command sd s) 2 = ldl_be_p resp 4 \<and>
         response (aw_h3_sdhost_send_command sd s) 3 = ldl_be_p resp 0 \<and>
         irq_status (aw_h3_sdhost_send_command sd s) = irq_status s OR SD_RISR_CMD_COMPLETE \<and>
         ldl_be_p (\<lambda>i. of_nat i) 12 = 0x0C0D0E0F \<and> ldl_be_p (\<lambda>i. of_nat i) 8 = 0x08090A0B \<and>
         ldl_be_p (\<lambda>i. of_nat i) 4 = 0x04050607 \<and> ldl_be_p (\<lambda>i. of_nat i) 0 = 0x00010203"
  using assms(1,2)
  by (simp add: send_command_bus[OF assms(3,4)] response_accepted_def ldl_be_p_def)

text \<open>The theorem at the command \<open>LOAD | RESPONSE | RESPONSE_LONG | CMD2\<close>.\<close>

theorem long_response_reversed_witness:
  "command long_cmd_state AND SD_CMDR_RESPONSE \<noteq> 0 \<and>
   command long_cmd_state AND SD_CMDR_RESPONSE_LONG \<noteq> 0 \<and>
   command long_cmd_state AND SD_CMDR_CLKCHANGE = 0 \<and>
   card_do_command long_card (sdbus long_cmd_state)
     \<lparr>cmd = ucast (command long_cmd_state AND SD_CMDR_CMDID_MASK),
      arg = command_arg long_cmd_state\<rparr> = (16, (\<lambda>i. of_nat i)) \<and>
   response (aw_h3_sdhost_send_command long_card long_cmd_state) 0 = 0x0C0D0E0F \<and>
   response (aw_h3_sdhost_send_command long_card long_cmd_state) 1 = 0x08090A0B \<and>
   response (aw_h3_sdhost_send_command long_card long_cmd_state) 2 = 0x04050607 \<and>
   response (aw_h3_sdhost_send_command long_card long_cmd_state) 3 = 0x00010203"
proof -
  have h: "command long_cmd_state AND SD_CMDR_RESPONSE \<noteq> 0"
    "command long_cmd_state AND SD_CMDR_RESPONSE_LONG \<noteq> 0"
    "command long_cmd_state AND SD_CMDR_CLKCHANGE = 0"
    by (simp_all add: long_cmd_state_def)
  have c: "card_do_command long_card (sdbus long_cmd_state)
     \<lparr>cmd = ucast (command long_cmd_state AND SD_CMDR_CMDID_MASK),
      arg = command_arg long_cmd_state\<rparr> = (16, (\<lambda>i. of_nat i))"
    by (simp add: long_card_def)
  show ?thesis
    using h c long_response_reversed[OF h c] by simp
qed

text \<open>
  C10. When auto-stop fires (\<open>AUTOSTOP\<close> set, \<open>transfer_cnt\<close> 0), \<open>command\<close> and
  \<open>command_arg\<close> are afterwards what they were before. The stop command is dispatched
  with the other flags of the saved command: with \<open>CLKCHANGE\<close> set nothing reaches the
  bus and only \<open>CMD_COMPLETE\<close> is added; with \<open>CLKCHANGE\<close> clear CMD12 with argument
  0 is submitted, and when \<open>RESPONSE\<close> is set its answer overwrites the response
  registers and adds \<open>CMD_COMPLETE\<close>, or, when the answer is refused, leaves the
  response registers and adds \<open>NO_RESPONSE\<close>. Neither the response registers nor
  \<open>irq_status\<close> are put back.
\<close>

theorem auto_stop_keeps_response_and_irq:
  assumes "command s AND SD_CMDR_AUTOSTOP \<noteq> 0" and "transfer_cnt s = 0"
  shows "command (aw_h3_sdhost_auto_stop sd s) = command s \<and>
     command_arg (aw_h3_sdhost_auto_stop sd s) = command_arg s \<and>
     (command s AND SD_CMDR_CLKCHANGE \<noteq> 0 \<longrightarrow>
        sdbus (aw_h3_sdhost_auto_stop sd s) = sdbus s \<and>
        response (aw_h3_sdhost_auto_stop sd s) = response s \<and>
        irq_status (aw_h3_sdhost_auto_stop sd s) = irq_status s OR SD_RISR_CMD_COMPLETE) \<and>
     (command s AND SD_CMDR_CLKCHANGE = 0 \<longrightarrow>
        sdbus (aw_h3_sdhost_auto_stop sd s) = sdbus s @ [DoCommand \<lparr>cmd = 12, arg = 0\<rparr>] \<and>
        (command s AND SD_CMDR_RESPONSE \<noteq> 0 \<longrightarrow>
           (\<forall>rlen resp. card_do_command sd (sdbus s) \<lparr>cmd = 12, arg = 0\<rparr> = (rlen, resp) \<longrightarrow>
              (if rlen = 16 then
                 response (aw_h3_sdhost_auto_stop sd s) 0 = ldl_be_p resp 12 \<and>
                 response (aw_h3_sdhost_auto_stop sd s) 1 = ldl_be_p resp 8 \<and>
                 response (aw_h3_sdhost_auto_stop sd s) 2 = ldl_be_p resp 4 \<and>
                 response (aw_h3_sdhost_auto_stop sd s) 3 = ldl_be_p resp 0 \<and>
                 irq_status (aw_h3_sdhost_auto_stop sd s) = irq_status s OR SD_RISR_CMD_COMPLETE
               else if rlen = 4 \<and> command s AND SD_CMDR_RESPONSE_LONG = 0 then
                 response (aw_h3_sdhost_auto_stop sd s) 0 = ldl_be_p resp 0 \<and>
                 response (aw_h3_sdhost_auto_stop sd s) 1 = 0 \<and>
                 response (aw_h3_sdhost_auto_stop sd s) 2 = 0 \<and>
                 response (aw_h3_sdhost_auto_stop sd s) 3 = 0 \<and>
                 irq_status (aw_h3_sdhost_auto_stop sd s) = irq_status s OR SD_RISR_CMD_COMPLETE
               else
                 response (aw_h3_sdhost_auto_stop sd s) = response s \<and>
                 irq_status (aw_h3_sdhost_auto_stop sd s) = irq_status s OR SD_RISR_NO_RESPONSE))))"
proof (cases "command s AND SD_CMDR_CLKCHANGE = 0")
  case False
  then show ?thesis by (simp add: auto_stop_clkchange[OF assms])
next
  case True
  have keep: "command (aw_h3_sdhost_auto_stop sd s) = command s"
    "command_arg (aw_h3_sdhost_auto_stop sd s) = command_arg s"
    by (simp_all add: auto_stop_fires[OF assms])
  have bus: "sdbus (aw_h3_sdhost_auto_stop sd s) = sdbus s @ [DoCommand \<lparr>cmd = 12, arg = 0\<rparr>]"
    using auto_stop_bus[OF assms True, of sd]
    by (cases "card_do_command sd (sdbus s) \<lparr>cmd = 12, arg = 0\<rparr>") simp
  have resp: "command s AND SD_CMDR_RESPONSE \<noteq> 0 \<longrightarrow>
           (\<forall>rlen resp. card_do_command sd (sdbus s) \<lparr>cmd = 12, arg = 0\<rparr> = (rlen, resp) \<longrightarrow>
              (if rlen = 16 then
                 response (aw_h3_sdhost_auto_stop sd s) 0 = ldl_be_p resp 12 \<and>
                 response (aw_h3_sdhost_auto_stop sd s) 1 = ldl_be_p resp 8 \<and>
                 response (aw_h3_sdhost_auto_stop sd s) 2 = ldl_be_p resp 4 \<and>
                 response (aw_h3_sdhost_auto_stop sd s) 3 = ldl_be_p resp 0 \<and>
                 irq_status (aw_h3_sdhost_auto_stop sd s) = irq_status s OR SD_RISR_CMD_COMPLETE
               else if rlen = 4 \<and> command s AND SD_CMDR_RESPONSE_LONG = 0 then
                 response (aw_h3_sdhost_auto_stop sd s) 0 = ldl_be_p resp 0 \<and>
                 response (aw_h3_sdhost_auto_stop sd s) 1 = 0 \<and>
                 response (aw_h3_sdhost_auto_stop sd s) 2 = 0 \<and>
                 response (aw_h3_sdhost_auto_stop sd s) 3 = 0 \<and>
                 irq_status (aw_h3_sdhost_auto_stop sd s) = irq_status s OR SD_RISR_CMD_COMPLETE
               else
                 response (aw_h3_sdhost_auto_stop sd s) = response s \<and>
                 irq_status (aw_h3_sdhost_auto_stop sd s) = irq_status s OR SD_RISR_NO_RESPONSE))"
  proof (intro impI allI)
    fix rlen resp
    assume r: "command s AND SD_CMDR_RESPONSE \<noteq> 0"
      and c: "card_do_command sd (sdbus s) \<lparr>cmd = 12, arg = 0\<rparr> = (rlen, resp)"
    show "(if rlen = 16 then
                 response (aw_h3_sdhost_auto_stop sd s) 0 = ldl_be_p resp 12 \<and>
                 response (aw_h3_sdhost_auto_stop sd s) 1 = ldl_be_p resp 8 \<and>
                 response (aw_h3_sdhost_auto_stop sd s) 2 = ldl_be_p resp 4 \<and>
                 response (aw_h3_sdhost_auto_stop sd s) 3 = ldl_be_p resp 0 \<and>
                 irq_status (aw_h3_sdhost_auto_stop sd s) = irq_status s OR SD_RISR_CMD_COMPLETE
               else if rlen = 4 \<and> command s AND SD_CMDR_RESPONSE_LONG = 0 then
                 response (aw_h3_sdhost_auto_stop sd s) 0 = ldl_be_p resp 0 \<and>
                 response (aw_h3_sdhost_auto_stop sd s) 1 = 0 \<and>
                 response (aw_h3_sdhost_auto_stop sd s) 2 = 0 \<and>
                 response (aw_h3_sdhost_auto_stop sd s) 3 = 0 \<and>
                 irq_status (aw_h3_sdhost_auto_stop sd s) = irq_status s OR SD_RISR_CMD_COMPLETE
               else
                 response (aw_h3_sdhost_auto_stop sd s) = response s \<and>
                 irq_status (aw_h3_sdhost_auto_stop sd s) = irq_status s OR SD_RISR_NO_RESPONSE)"
      using r by (auto simp: auto_stop_bus[OF assms True c] response_accepted_def)
  qed
  show ?thesis using True keep bus resp by blast
qed

text \<open>
  The theorem at \<open>AUTOSTOP | RESPONSE | CMD25\<close> with a card that answers with 16
  bytes, with an empty slot (length 0, refused), and with \<open>CLKCHANGE\<close> set.
\<close>

theorem auto_stop_keeps_response_and_irq_witness:
  "command autostop_state AND SD_CMDR_AUTOSTOP \<noteq> 0 \<and> transfer_cnt autostop_state = 0 \<and>
   command autostop_state AND SD_CMDR_CLKCHANGE = 0 \<and>
   command autostop_state AND SD_CMDR_RESPONSE \<noteq> 0 \<and>
   card_do_command long_card (sdbus autostop_state) \<lparr>cmd = 12, arg = 0\<rparr> = (16, (\<lambda>i. of_nat i)) \<and>
   command (aw_h3_sdhost_auto_stop long_card autostop_state) = command autostop_state \<and>
   command_arg (aw_h3_sdhost_auto_stop long_card autostop_state) = command_arg autostop_state \<and>
   sdbus (aw_h3_sdhost_auto_stop long_card autostop_state) = [DoCommand \<lparr>cmd = 12, arg = 0\<rparr>] \<and>
   response autostop_state 0 = 0 \<and>
   response (aw_h3_sdhost_auto_stop long_card autostop_state) 0 = 0x0C0D0E0F \<and>
   irq_status autostop_state = 0 \<and>
   irq_status (aw_h3_sdhost_auto_stop long_card autostop_state) = SD_RISR_CMD_COMPLETE \<and>
   card_do_command no_card (sdbus autostop_state) \<lparr>cmd = 12, arg = 0\<rparr> = (0, (\<lambda>_. 0)) \<and>
   response (aw_h3_sdhost_auto_stop no_card autostop_state) = response autostop_state \<and>
   irq_status (aw_h3_sdhost_auto_stop no_card autostop_state) = SD_RISR_NO_RESPONSE \<and>
   command autostop_clk_state AND SD_CMDR_AUTOSTOP \<noteq> 0 \<and> transfer_cnt autostop_clk_state = 0 \<and>
   command autostop_clk_state AND SD_CMDR_CLKCHANGE \<noteq> 0 \<and>
   command (aw_h3_sdhost_auto_stop long_card autostop_clk_state) = command autostop_clk_state \<and>
   sdbus (aw_h3_sdhost_auto_stop long_card autostop_clk_state) = [] \<and>
   irq_status (aw_h3_sdhost_auto_stop long_card autostop_clk_state) = SD_RISR_CMD_COMPLETE"
proof -
  have h: "command autostop_state AND SD_CMDR_AUTOSTOP \<noteq> 0" "transfer_cnt autostop_state = 0"
    by (simp_all add: autostop_state_def aw_h3_sdhost_reset_def)
  have k: "command autostop_state AND SD_CMDR_CLKCHANGE = 0"
    "command autostop_state AND SD_CMDR_RESPONSE \<noteq> 0"
    "card_do_command long_card (sdbus autostop_state) \<lparr>cmd = 12, arg = 0\<rparr> = (16, (\<lambda>i. of_nat i))"
    "card_do_command no_card (sdbus autostop_state) \<lparr>cmd = 12, arg = 0\<rparr> = (0, (\<lambda>_. 0))"
    "response autostop_state 0 = 0" "irq_status autostop_state = 0" "sdbus autostop_state = []"
    by (simp_all add: autostop_state_def aw_h3_sdhost_reset_def long_card_def no_card_def
        zeroed_state_def upt_rec)
  have h': "command autostop_clk_state AND SD_CMDR_AUTOSTOP \<noteq> 0"
    "transfer_cnt autostop_clk_state = 0"
    by (simp_all add: autostop_clk_state_def aw_h3_sdhost_reset_def)
  have k': "command autostop_clk_state AND SD_CMDR_CLKCHANGE \<noteq> 0"
    "irq_status autostop_clk_state = 0" "sdbus autostop_clk_state = []"
    by (simp_all add: autostop_clk_state_def aw_h3_sdhost_reset_def zeroed_state_def)
  have v: "ldl_be_p (\<lambda>i. of_nat i) 12 = 0x0C0D0E0F"
    by (simp add: ldl_be_p_def)
  show ?thesis
    using h k h' k' v auto_stop_keeps_response_and_irq[OF h, of long_card]
      auto_stop_keeps_response_and_irq[OF h, of no_card]
      auto_stop_keeps_response_and_irq[OF h', of long_card]
    by simp
qed

section \<open>Claims about register writes\<close>

text \<open>
  C2. A write of a 32-bit value to the FIFO register at offset \<open>0x200\<close> returns with
  exactly four \<open>sdbus_write_data\<close> calls added to the bus history, carrying the
  value's bytes lowest first, followed by nothing else but the CMD12 of auto-stop when
  that fires. For \<open>0xDEADBEEF\<close> the bytes are \<open>0xEF\<close>, \<open>0xBE\<close>, \<open>0xAD\<close>,
  \<open>0xDE\<close>, in this order.
\<close>

theorem fifo_write_bytes:
  "(\<exists>s'. aw_h3_sdhost_write sd s ram REG_SD_FIFO (ucast (v :: u32)) = Some (s', ram) \<and>
     sdbus s' = sdbus s @
       [WriteData (ucast v), WriteData (ucast (drop_bit 8 v)),
        WriteData (ucast (drop_bit 16 v)), WriteData (ucast (drop_bit 24 v))] @
       (if command s AND SD_CMDR_AUTOSTOP \<noteq> 0 \<and> transfer_cnt s \<le> 4 \<and>
           command s AND SD_CMDR_CLKCHANGE = 0
        then [DoCommand \<lparr>cmd = 12, arg = 0\<rparr>] else [])) \<and>
   [WriteData (ucast (0xDEADBEEF :: u32)), WriteData (ucast (drop_bit 8 (0xDEADBEEF :: u32))),
    WriteData (ucast (drop_bit 16 (0xDEADBEEF :: u32))),
    WriteData (ucast (drop_bit 24 (0xDEADBEEF :: u32)))] =
   [WriteData 0xEF, WriteData 0xBE, WriteData 0xAD, WriteData 0xDE]"
  by (auto simp: aw_h3_sdhost_write_def Let_def update_irq_fields auto_stop_sdbus
      update_transfer_cnt_fields update_transfer_cnt_frame sdbus_write_data_def
      fifo_byte fifo_byte0 not_le sub4_nonzero)

text \<open>
  The claim's own example fails: after reset, with no card, writing \<open>0xDEADBEEF\<close> to
  the FIFO leaves the bus history \<open>0xEF, 0xBE, 0xAD, 0xDE\<close>, which is not
  \<open>0xEF, 0xAD, 0xDE, 0xBE\<close>.
\<close>

theorem fifo_write_deadbeef_order:
  "map_option (sdbus \<circ> fst)
     (aw_h3_sdhost_write no_card (aw_h3_sdhost_reset zeroed_state) zero_ram REG_SD_FIFO 0xDEADBEEF)
     = Some [WriteData 0xEF, WriteData 0xBE, WriteData 0xAD, WriteData 0xDE] \<and>
   map_option (sdbus \<circ> fst)
     (aw_h3_sdhost_write no_card (aw_h3_sdhost_reset zeroed_state) zero_ram REG_SD_FIFO 0xDEADBEEF)
     \<noteq> Some [WriteData 0xEF, WriteData 0xAD, WriteData 0xDE, WriteData 0xBE]"
  by (simp add: aw_h3_sdhost_write_def Let_def update_irq_fields auto_stop_sdbus
      update_transfer_cnt_fields update_transfer_cnt_frame sdbus_write_data_def
      aw_h3_sdhost_reset_def zeroed_state_def)

text \<open>
  C3. The claim: in every reachable state, \<open>transfer_cnt = 0\<close> implies that
  \<open>DATA_COMPLETE\<close> and \<open>AUTOCMD_DONE\<close> are set. The state right after reset is
  reachable, has \<open>transfer_cnt = 0\<close> and has neither bit set; so has the state in
  which the guest has acknowledged a finished transfer by writing the two bits to RISR.
\<close>

theorem transfer_cnt_zero_without_completion_bits:
  "reachable no_card (aw_h3_sdhost_reset zeroed_state) \<and>
   transfer_cnt (aw_h3_sdhost_reset zeroed_state) = 0 \<and>
   irq_status (aw_h3_sdhost_reset zeroed_state) AND SD_RISR_DATA_COMPLETE = 0 \<and>
   irq_status (aw_h3_sdhost_reset zeroed_state) AND SD_RISR_AUTOCMD_DONE = 0 \<and>
   reachable no_card acked_state \<and> transfer_cnt acked_state = 0 \<and>
   irq_status acked_state AND SD_RISR_DATA_COMPLETE = 0 \<and>
   irq_status acked_state AND SD_RISR_AUTOCMD_DONE = 0"
  using reach_reset[of no_card zeroed_state] reachable_acked
  by (simp add: aw_h3_sdhost_reset_def acked_state_def pio_state_def zeroed_state_def)

text \<open>
  C3, as amended. At the points where the transfer counter is updated, the implication
  holds: after \<open>aw_h3_sdhost_update_transfer_cnt\<close>, after a write to the FIFO register
  and after a read of the FIFO register with data ready, \<open>transfer_cnt = 0\<close> implies
  that \<open>DATA_COMPLETE\<close> and \<open>AUTOCMD_DONE\<close> are set in \<open>irq_status\<close>.
\<close>

theorem completion_bits_when_counter_hits_zero:
  "(transfer_cnt (aw_h3_sdhost_update_transfer_cnt s bytes) = 0 \<longrightarrow>
      irq_status (aw_h3_sdhost_update_transfer_cnt s bytes) AND
        (SD_RISR_DATA_COMPLETE OR SD_RISR_AUTOCMD_DONE) =
        SD_RISR_DATA_COMPLETE OR SD_RISR_AUTOCMD_DONE) \<and>
   (\<exists>s'. aw_h3_sdhost_write sd s ram REG_SD_FIFO value = Some (s', ram) \<and>
      (transfer_cnt s' = 0 \<longrightarrow>
         irq_status s' AND (SD_RISR_DATA_COMPLETE OR SD_RISR_AUTOCMD_DONE) =
           SD_RISR_DATA_COMPLETE OR SD_RISR_AUTOCMD_DONE)) \<and>
   (sdbus_data_ready sd (sdbus s) \<longrightarrow>
    transfer_cnt (snd (aw_h3_sdhost_read sd s REG_SD_FIFO)) = 0 \<longrightarrow>
      irq_status (snd (aw_h3_sdhost_read sd s REG_SD_FIFO)) AND
        (SD_RISR_DATA_COMPLETE OR SD_RISR_AUTOCMD_DONE) =
        SD_RISR_DATA_COMPLETE OR SD_RISR_AUTOCMD_DONE)"
  using update_transfer_cnt_bits[of s bytes] fifo_write_bits[of sd s ram "value"]
    fifo_read_bits[of sd s]
  by blast

text \<open>
  The theorem at a transfer of one word: the counter goes from 4 to 0 and both bits are
  set, through the counter update, through a FIFO write and through a FIFO read.
\<close>

theorem completion_bits_when_counter_hits_zero_witness:
  "transfer_cnt (aw_h3_sdhost_update_transfer_cnt pio_state 4) = 0 \<and>
   irq_status (aw_h3_sdhost_update_transfer_cnt pio_state 4) AND
     (SD_RISR_DATA_COMPLETE OR SD_RISR_AUTOCMD_DONE) = SD_RISR_DATA_COMPLETE OR SD_RISR_AUTOCMD_DONE \<and>
   (\<exists>s'. aw_h3_sdhost_write no_card pio_state zero_ram REG_SD_FIFO 0xDEADBEEF = Some (s', zero_ram) \<and>
      transfer_cnt s' = 0 \<and>
      irq_status s' AND (SD_RISR_DATA_COMPLETE OR SD_RISR_AUTOCMD_DONE) =
        SD_RISR_DATA_COMPLETE OR SD_RISR_AUTOCMD_DONE) \<and>
   sdbus_data_ready data_card (sdbus pio_state) \<and>
   transfer_cnt (snd (aw_h3_sdhost_read data_card pio_state REG_SD_FIFO)) = 0 \<and>
   irq_status (snd (aw_h3_sdhost_read data_card pio_state REG_SD_FIFO)) AND
     (SD_RISR_DATA_COMPLETE OR SD_RISR_AUTOCMD_DONE) = SD_RISR_DATA_COMPLETE OR SD_RISR_AUTOCMD_DONE"
proof -
  have h1: "transfer_cnt (aw_h3_sdhost_update_transfer_cnt pio_state 4) = 0"
    by (simp add: aw_h3_sdhost_update_transfer_cnt_def pio_state_def)
  have h2: "sdbus_data_ready data_card (sdbus pio_state)"
    by (simp add: sdbus_data_ready_def data_card_def)
  have h3: "transfer_cnt (snd (aw_h3_sdhost_read data_card pio_state REG_SD_FIFO)) = 0"
    using pio_read_eval by simp
  have h4: "\<And>s'. aw_h3_sdhost_write no_card pio_state zero_ram REG_SD_FIFO 0xDEADBEEF = Some (s', zero_ram)
     \<Longrightarrow> transfer_cnt s' = 0"
    using pio_write_eval by simp
  from completion_bits_when_counter_hits_zero[of pio_state 4 no_card zero_ram "0xDEADBEEF"]
  have a: "irq_status (aw_h3_sdhost_update_transfer_cnt pio_state 4) AND
     (SD_RISR_DATA_COMPLETE OR SD_RISR_AUTOCMD_DONE) = SD_RISR_DATA_COMPLETE OR SD_RISR_AUTOCMD_DONE"
    and b: "\<exists>s'. aw_h3_sdhost_write no_card pio_state zero_ram REG_SD_FIFO 0xDEADBEEF = Some (s', zero_ram) \<and>
      transfer_cnt s' = 0 \<and>
      irq_status s' AND (SD_RISR_DATA_COMPLETE OR SD_RISR_AUTOCMD_DONE) =
        SD_RISR_DATA_COMPLETE OR SD_RISR_AUTOCMD_DONE"
    using h1 h4 by blast+
  from completion_bits_when_counter_hits_zero[of pio_state 4 data_card]
  have c: "irq_status (snd (aw_h3_sdhost_read data_card pio_state REG_SD_FIFO)) AND
     (SD_RISR_DATA_COMPLETE OR SD_RISR_AUTOCMD_DONE) = SD_RISR_DATA_COMPLETE OR SD_RISR_AUTOCMD_DONE"
    using h2 h3 by blast
  show ?thesis using h1 h2 h3 a b c by blast
qed

text \<open>
  C4. The expression of the IDST case, \<open>dmac_status &= (~0x3FF) | (~value & 0x3FF)\<close>,
  equals the write-one-to-clear formulation \<open>dmac_status & ~(v & 0x3FF)\<close> for every
  register content and every written value, and a write of \<open>v\<close> to offset \<open>0x88\<close>
  leaves exactly that in \<open>dmac_status\<close> (the interrupt line is then recomputed).
\<close>

theorem idst_write_is_w1c_under_mask:
  "d AND (NOT 0x3FF OR (NOT v AND 0x3FF)) = idst_w1c_spec d v \<and>
   aw_h3_sdhost_write sd s ram REG_SD_IDST (ucast v) =
     Some (aw_h3_sdhost_update_irq (s\<lparr>dmac_status := idst_w1c_spec (dmac_status s) v\<rparr>), ram)"
  using idst_expr_w1c[of d v] idst_expr_w1c[of "dmac_status s" v]
    idst_expr_64[of "dmac_status s" v]
  by (simp add: aw_h3_sdhost_write_def)

text \<open>
  C6. Write-one-to-clear: a write of \<open>v\<close> to RISR (\<open>0x38\<close>) or to MISR
  (\<open>0x34\<close>) leaves \<open>irq_status AND NOT v\<close> in \<open>irq_status\<close>, a write of \<open>v\<close>
  to STAR (\<open>0x3C\<close>) leaves \<open>status AND NOT v\<close> in \<open>status\<close>; no other register
  field changes, guest memory is untouched, and the interrupt line is recomputed from the
  new state.
\<close>

theorem w1c_law:
  "aw_h3_sdhost_write sd s ram REG_SD_RISR (ucast (v :: u32)) =
     Some (s\<lparr>irq_status := irq_status s AND NOT v,
             irq := (if global_ctl s AND SD_GCTL_INT_ENB \<noteq> 0
                     then (irq_status s AND NOT v) AND irq_mask s else 0)\<rparr>, ram) \<and>
   aw_h3_sdhost_write sd s ram REG_SD_MISR (ucast v) =
     Some (s\<lparr>irq_status := irq_status s AND NOT v,
             irq := (if global_ctl s AND SD_GCTL_INT_ENB \<noteq> 0
                     then (irq_status s AND NOT v) AND irq_mask s else 0)\<rparr>, ram) \<and>
   aw_h3_sdhost_write sd s ram REG_SD_STAR (ucast v) =
     Some (s\<lparr>status := status s AND NOT v,
             irq := (if global_ctl s AND SD_GCTL_INT_ENB \<noteq> 0
                     then irq_status s AND irq_mask s else 0)\<rparr>, ram)"
  by (simp add: aw_h3_sdhost_write_def aw_h3_sdhost_update_irq_def Let_def ucast_and_not_64)

text \<open>
  C8. Self-clearing control bits. From every reachable state, an MMIO write to any offset
  with any value returns, and GCTL then reads with \<open>DMA_RST\<close>, \<open>FIFO_RST\<close> and
  \<open>SOFT_RST\<close> all zero. From every state, a write to CMDR returns, and CMDR then reads
  with \<open>LOAD\<close> zero.
\<close>

theorem self_clearing_bits:
  "(reachable sd s \<longrightarrow>
      (\<exists>s' ram'. aw_h3_sdhost_write sd s ram offset value = Some (s', ram') \<and>
         fst (aw_h3_sdhost_read sd s' REG_SD_GCTL) AND
           ucast (SD_GCTL_DMA_RST OR SD_GCTL_FIFO_RST OR SD_GCTL_SOFT_RST) = 0)) \<and>
   (\<exists>s' ram'. aw_h3_sdhost_write sd s ram REG_SD_CMDR value = Some (s', ram') \<and>
      fst (aw_h3_sdhost_read sd s' REG_SD_CMDR) AND ucast SD_CMDR_LOAD = 0)"
proof (intro conjI impI)
  assume r: "reachable sd s"
  obtain s' ram' where w: "aw_h3_sdhost_write sd s ram offset value = Some (s', ram')"
    using write_returns[of sd s ram offset "value"] by blast
  have "reachable sd s'" by (rule reach_write[OF r w])
  then have "global_ctl s' AND (SD_GCTL_DMA_RST OR SD_GCTL_FIFO_RST OR SD_GCTL_SOFT_RST) = 0"
    by (rule reachable_gctl)
  then have "fst (aw_h3_sdhost_read sd s' REG_SD_GCTL) AND
           ucast (SD_GCTL_DMA_RST OR SD_GCTL_FIFO_RST OR SD_GCTL_SOFT_RST) = 0"
    unfolding read_gctl by (rule ucast_and_zero)
  then show "\<exists>s' ram'. aw_h3_sdhost_write sd s ram offset value = Some (s', ram') \<and>
         fst (aw_h3_sdhost_read sd s' REG_SD_GCTL) AND
           ucast (SD_GCTL_DMA_RST OR SD_GCTL_FIFO_RST OR SD_GCTL_SOFT_RST) = 0"
    using w by blast
next
  obtain s' ram' where w: "aw_h3_sdhost_write sd s ram REG_SD_CMDR value = Some (s', ram')"
    "command s' AND SD_CMDR_LOAD = 0"
    using write_cmdr_load_clear[of sd s ram "value"] by blast
  have "fst (aw_h3_sdhost_read sd s' REG_SD_CMDR) AND ucast SD_CMDR_LOAD = 0"
    unfolding read_cmdr by (rule ucast_and_zero[OF w(2)])
  then show "\<exists>s' ram'. aw_h3_sdhost_write sd s ram REG_SD_CMDR value = Some (s', ram') \<and>
      fst (aw_h3_sdhost_read sd s' REG_SD_CMDR) AND ucast SD_CMDR_LOAD = 0"
    using w(1) by blast
qed

text \<open>
  The theorem at the state after reset, writing \<open>0x80000037\<close> (all three reset bits
  set, and \<open>LOAD\<close>) to GCTL and to CMDR.
\<close>

theorem self_clearing_bits_witness:
  "reachable no_card (aw_h3_sdhost_reset zeroed_state) \<and>
   (\<exists>s' ram'. aw_h3_sdhost_write no_card (aw_h3_sdhost_reset zeroed_state) zero_ram REG_SD_GCTL 0x80000037
        = Some (s', ram') \<and>
      fst (aw_h3_sdhost_read no_card s' REG_SD_GCTL) AND
        ucast (SD_GCTL_DMA_RST OR SD_GCTL_FIFO_RST OR SD_GCTL_SOFT_RST) = 0) \<and>
   (\<exists>s' ram'. aw_h3_sdhost_write no_card (aw_h3_sdhost_reset zeroed_state) zero_ram REG_SD_CMDR
        0x80000037 = Some (s', ram') \<and>
      fst (aw_h3_sdhost_read no_card s' REG_SD_CMDR) AND ucast SD_CMDR_LOAD = 0)"
  using reach_reset[of no_card zeroed_state]
    self_clearing_bits[of no_card "aw_h3_sdhost_reset zeroed_state" zero_ram REG_SD_GCTL
      "0x80000037"]
  by blast

section \<open>Claims about the DMA descriptor walk\<close>

text \<open>
  C5. The descriptor walk terminates from every device state, for every card and every
  content of guest memory (so for every descriptor chain, with or without a
  \<open>LAST\<close> descriptor, with or without descriptors of size 0), and it stops where the
  claim says.

  The walk: \<open>aw_h3_sdhost_dma\<close> returns, and its loop returns the state and memory that
  the passes of \<open>dma_walk\<close> leave. There are at most \<open>byte_count\<close> passes. At the
  end \<open>byte_count\<close> is 0 or the last descriptor processed has \<open>LAST\<close>; every
  earlier pass processed a descriptor without \<open>LAST\<close> and left \<open>byte_count\<close> not
  0. \<open>byte_count\<close> is strictly smaller after each pass than at the start and than after
  the pass before it. The SD bus has seen exactly as many data bytes (written for a write,
  read for a read) as \<open>byte_count\<close> has fallen. Under the entry conditions
  \<open>aw_h3_sdhost_dma\<close> returns that state's \<open>byte_count\<close> and bus history and
  that memory.

  One descriptor: a size field of 0 counts as 65536 bytes; the number of bytes done is
  \<open>min (size, max_bytes)\<close>, at least one when \<open>max_bytes\<close> is not 0, and that many
  data bytes go over the SD bus; the descriptor is returned, and written back to guest
  memory, with \<open>HOLD\<close> cleared and the size that was used. A write of at most 1024
  bytes sends the guest memory at the buffer address, in order, and changes guest memory
  nowhere outside the descriptor; a read of at most 1024 bytes stores the bytes read from
  the card at the buffer address.

  One pass of the loop body: it processes the descriptor with \<open>max_bytes = byte_count\<close>,
  and \<open>byte_count\<close> falls by the number of bytes done, so it is strictly smaller when
  it was not 0.
\<close>

theorem dma_walk_terminates:
  "(\<exists>s' ram'. aw_h3_sdhost_dma sd s ram = Some (s', ram')) \<and>
   (dma_loop sd is_write desc_addr s ram =
     Some (walk_result s ram (dma_walk sd is_write desc_addr s ram))) \<and>
   (length (dma_walk sd is_write desc_addr s ram) \<le> unat (byte_count s)) \<and>
   (byte_count (fst (walk_result s ram (dma_walk sd is_write desc_addr s ram))) = 0 \<or>
    dma_walk sd is_write desc_addr s ram \<noteq> [] \<and>
    dstatus (fst (last (dma_walk sd is_write desc_addr s ram))) AND DESC_STATUS_LAST \<noteq> 0) \<and>
   (\<forall>p \<in> set (butlast (dma_walk sd is_write desc_addr s ram)).
      dstatus (fst p) AND DESC_STATUS_LAST = 0 \<and> byte_count (fst (snd p)) \<noteq> 0) \<and>
   (\<forall>p \<in> set (dma_walk sd is_write desc_addr s ram). byte_count (fst (snd p)) < byte_count s) \<and>
   (sorted_wrt (\<lambda>x y. y < x)
      (map (\<lambda>p. byte_count (fst (snd p))) (dma_walk sd is_write desc_addr s ram))) \<and>
   (\<exists>bs. length bs = unat (byte_count s - byte_count (fst (walk_result s ram (dma_walk sd is_write desc_addr s ram)))) \<and>
      sdbus (fst (walk_result s ram (dma_walk sd is_write desc_addr s ram))) = sdbus s @ map (bus_call is_write) bs) \<and>
   (byte_count s \<noteq> 0 \<longrightarrow> block_size s \<noteq> 0 \<longrightarrow> global_ctl s AND SD_GCTL_DMA_ENB \<noteq> 0 \<longrightarrow>
    (command s AND SD_CMDR_WRITE \<noteq> 0 \<or> sdbus_data_ready sd (sdbus s)) \<longrightarrow>
    (\<exists>s'. aw_h3_sdhost_dma sd s ram =
        Some (s', snd (walk_result s ram
           (dma_walk sd (command s AND SD_CMDR_WRITE \<noteq> 0) (ucast (desc_base s)) s ram))) \<and>
      byte_count s' = byte_count (fst (walk_result s ram
           (dma_walk sd (command s AND SD_CMDR_WRITE \<noteq> 0) (ucast (desc_base s)) s ram))) \<and>
      sdbus s' = sdbus (fst (walk_result s ram
           (dma_walk sd (command s AND SD_CMDR_WRITE \<noteq> 0) (ucast (desc_base s)) s ram))))) \<and>
   (desc_seg_size ram desc_addr =
     (if dsize (desc_of_bytes (cpu_physical_memory_read ram desc_addr 16)) = 0 then 65536
      else dsize (desc_of_bytes (cpu_physical_memory_read ram desc_addr 16)))) \<and>
   (fst (aw_h3_sdhost_process_desc sd s ram desc_addr is_write max_bytes) =
     min (desc_seg_size ram desc_addr) max_bytes) \<and>
   (max_bytes \<noteq> 0 \<longrightarrow>
      fst (aw_h3_sdhost_process_desc sd s ram desc_addr is_write max_bytes) \<noteq> 0) \<and>
   (\<exists>bs. length bs = unat (min (desc_seg_size ram desc_addr) max_bytes) \<and>
      sdbus (fst (snd (snd (aw_h3_sdhost_process_desc sd s ram desc_addr is_write max_bytes)))) =
        sdbus s @ map (bus_call is_write) bs) \<and>
   (fst (snd (aw_h3_sdhost_process_desc sd s ram desc_addr is_write max_bytes)) =
     (desc_of_bytes (cpu_physical_memory_read ram desc_addr 16))
       \<lparr>dstatus := dstatus (desc_of_bytes (cpu_physical_memory_read ram desc_addr 16)) AND NOT DESC_STATUS_HOLD,
        dsize := desc_seg_size ram desc_addr\<rparr>) \<and>
   (desc_of_bytes (cpu_physical_memory_read
       (snd (snd (snd (aw_h3_sdhost_process_desc sd s ram desc_addr is_write max_bytes)))) desc_addr 16) =
     fst (snd (aw_h3_sdhost_process_desc sd s ram desc_addr is_write max_bytes))) \<and>
   (is_write \<longrightarrow> min (desc_seg_size ram desc_addr) max_bytes \<le> 1024 \<longrightarrow>
      sdbus (fst (snd (snd (aw_h3_sdhost_process_desc sd s ram desc_addr is_write max_bytes)))) =
        sdbus s @ map WriteData
          (cpu_physical_memory_read ram
             (ucast (daddr (desc_of_bytes (cpu_physical_memory_read ram desc_addr 16)) AND DESC_SIZE_MASK))
             (unat (min (desc_seg_size ram desc_addr) max_bytes)))) \<and>
   (is_write \<longrightarrow> 16 \<le> unat (x - desc_addr) \<longrightarrow>
      snd (snd (snd (aw_h3_sdhost_process_desc sd s ram desc_addr is_write max_bytes))) x = ram x) \<and>
   (\<not> is_write \<longrightarrow> min (desc_seg_size ram desc_addr) max_bytes \<le> 1024 \<longrightarrow>
    16 \<le> unat (x - desc_addr) \<longrightarrow>
      snd (snd (snd (aw_h3_sdhost_process_desc sd s ram desc_addr is_write max_bytes))) x =
        (if unat (x - ucast (daddr (desc_of_bytes (cpu_physical_memory_read ram desc_addr 16)) AND DESC_SIZE_MASK))
              < unat (min (desc_seg_size ram desc_addr) max_bytes)
         then fst (sdbus_read_buf sd (unat (min (desc_seg_size ram desc_addr) max_bytes)) (sdbus s)) !
                unat (x - ucast (daddr (desc_of_bytes (cpu_physical_memory_read ram desc_addr 16)) AND DESC_SIZE_MASK))
         else ram x)) \<and>
   (byte_count s \<noteq> 0 \<longrightarrow>
      byte_count (fst (snd (dma_loop_body sd is_write desc_addr s ram))) < byte_count s) \<and>
   (byte_count (fst (snd (dma_loop_body sd is_write desc_addr s ram))) =
     byte_count s - min (desc_seg_size ram desc_addr) (byte_count s)) \<and>
   (fst (dma_loop_body sd is_write desc_addr s ram) =
     fst (snd (aw_h3_sdhost_process_desc sd s ram desc_addr is_write (byte_count s)))) \<and>
   (snd (snd (dma_loop_body sd is_write desc_addr s ram)) =
     snd (snd (snd (aw_h3_sdhost_process_desc sd s ram desc_addr is_write (byte_count s))))) \<and>
   (sdbus (fst (snd (dma_loop_body sd is_write desc_addr s ram))) =
     sdbus (fst (snd (snd (aw_h3_sdhost_process_desc sd s ram desc_addr is_write (byte_count s))))))"
proof -
  note props = dma_walk_props[where n = "unat (byte_count s)" and s = s and sd = sd and ram = ram
      and is_write = is_write and desc_addr = desc_addr, OF order_refl, folded dma_walk_def]
  have w1: "\<exists>s' ram'. aw_h3_sdhost_dma sd s ram = Some (s', ram')"
    using dma_returns[of sd s ram] by blast
  have w2: "dma_loop sd is_write desc_addr s ram =
     Some (walk_result s ram (dma_walk sd is_write desc_addr s ram))"
    using props by blast
  have w3: "length (dma_walk sd is_write desc_addr s ram) \<le> unat (byte_count s)"
    using props by blast
  have w4: "byte_count (fst (walk_result s ram (dma_walk sd is_write desc_addr s ram))) = 0 \<or>
    dma_walk sd is_write desc_addr s ram \<noteq> [] \<and>
    dstatus (fst (last (dma_walk sd is_write desc_addr s ram))) AND DESC_STATUS_LAST \<noteq> 0"
    using props by blast
  have w5: "\<forall>p \<in> set (butlast (dma_walk sd is_write desc_addr s ram)).
      dstatus (fst p) AND DESC_STATUS_LAST = 0 \<and> byte_count (fst (snd p)) \<noteq> 0"
    using props by blast
  have w6: "\<forall>p \<in> set (dma_walk sd is_write desc_addr s ram). byte_count (fst (snd p)) < byte_count s"
    using props by blast
  have w7: "sorted_wrt (\<lambda>x y. y < x)
      (map (\<lambda>p. byte_count (fst (snd p))) (dma_walk sd is_write desc_addr s ram))"
    using props by blast
  have w8: "\<exists>bs. length bs = unat (byte_count s - byte_count (fst (walk_result s ram (dma_walk sd is_write desc_addr s ram)))) \<and>
      sdbus (fst (walk_result s ram (dma_walk sd is_write desc_addr s ram))) = sdbus s @ map (bus_call is_write) bs"
    using props by blast
  have w9: "byte_count s \<noteq> 0 \<longrightarrow> block_size s \<noteq> 0 \<longrightarrow> global_ctl s AND SD_GCTL_DMA_ENB \<noteq> 0 \<longrightarrow>
    (command s AND SD_CMDR_WRITE \<noteq> 0 \<or> sdbus_data_ready sd (sdbus s)) \<longrightarrow>
    (\<exists>s'. aw_h3_sdhost_dma sd s ram =
        Some (s', snd (walk_result s ram
           (dma_walk sd (command s AND SD_CMDR_WRITE \<noteq> 0) (ucast (desc_base s)) s ram))) \<and>
      byte_count s' = byte_count (fst (walk_result s ram
           (dma_walk sd (command s AND SD_CMDR_WRITE \<noteq> 0) (ucast (desc_base s)) s ram))) \<and>
      sdbus s' = sdbus (fst (walk_result s ram
           (dma_walk sd (command s AND SD_CMDR_WRITE \<noteq> 0) (ucast (desc_base s)) s ram))))"
    using dma_walk_result[of s sd ram] by blast
  have d1: "desc_seg_size ram desc_addr =
     (if dsize (desc_of_bytes (cpu_physical_memory_read ram desc_addr 16)) = 0 then 65536
      else dsize (desc_of_bytes (cpu_physical_memory_read ram desc_addr 16)))"
    by (simp add: desc_seg_size_def Let_def)
  have d2: "fst (aw_h3_sdhost_process_desc sd s ram desc_addr is_write max_bytes) =
     min (desc_seg_size ram desc_addr) max_bytes"
    by (rule process_desc_num_done)
  have d3: "max_bytes \<noteq> 0 \<longrightarrow>
      fst (aw_h3_sdhost_process_desc sd s ram desc_addr is_write max_bytes) \<noteq> 0"
    using desc_seg_size_pos[of ram desc_addr] by (auto simp: process_desc_num_done min_def)
  have d4: "\<exists>bs. length bs = unat (min (desc_seg_size ram desc_addr) max_bytes) \<and>
      sdbus (fst (snd (snd (aw_h3_sdhost_process_desc sd s ram desc_addr is_write max_bytes)))) =
        sdbus s @ map (bus_call is_write) bs"
    by (rule process_desc_bus)
  have d5: "fst (snd (aw_h3_sdhost_process_desc sd s ram desc_addr is_write max_bytes)) =
     (desc_of_bytes (cpu_physical_memory_read ram desc_addr 16))
       \<lparr>dstatus := dstatus (desc_of_bytes (cpu_physical_memory_read ram desc_addr 16)) AND NOT DESC_STATUS_HOLD,
        dsize := desc_seg_size ram desc_addr\<rparr>"
    by (simp add: aw_h3_sdhost_process_desc_def Let_def desc_seg_size_def)
  have d6: "desc_of_bytes (cpu_physical_memory_read
       (snd (snd (snd (aw_h3_sdhost_process_desc sd s ram desc_addr is_write max_bytes)))) desc_addr 16) =
     fst (snd (aw_h3_sdhost_process_desc sd s ram desc_addr is_write max_bytes))"
    using process_desc_writeback by blast
  have d7: "is_write \<longrightarrow> min (desc_seg_size ram desc_addr) max_bytes \<le> 1024 \<longrightarrow>
      sdbus (fst (snd (snd (aw_h3_sdhost_process_desc sd s ram desc_addr is_write max_bytes)))) =
        sdbus s @ map WriteData
          (cpu_physical_memory_read ram
             (ucast (daddr (desc_of_bytes (cpu_physical_memory_read ram desc_addr 16)) AND DESC_SIZE_MASK))
             (unat (min (desc_seg_size ram desc_addr) max_bytes)))"
    using process_desc_write_data by blast
  have d8: "is_write \<longrightarrow> 16 \<le> unat (x - desc_addr) \<longrightarrow>
      snd (snd (snd (aw_h3_sdhost_process_desc sd s ram desc_addr is_write max_bytes))) x = ram x"
    using process_desc_write_ram by blast
  have d9: "\<not> is_write \<longrightarrow> min (desc_seg_size ram desc_addr) max_bytes \<le> 1024 \<longrightarrow>
    16 \<le> unat (x - desc_addr) \<longrightarrow>
      snd (snd (snd (aw_h3_sdhost_process_desc sd s ram desc_addr is_write max_bytes))) x =
        (if unat (x - ucast (daddr (desc_of_bytes (cpu_physical_memory_read ram desc_addr 16)) AND DESC_SIZE_MASK))
              < unat (min (desc_seg_size ram desc_addr) max_bytes)
         then fst (sdbus_read_buf sd (unat (min (desc_seg_size ram desc_addr) max_bytes)) (sdbus s)) !
                unat (x - ucast (daddr (desc_of_bytes (cpu_physical_memory_read ram desc_addr 16)) AND DESC_SIZE_MASK))
         else ram x)"
    using process_desc_read_ram by blast
  have b1: "byte_count s \<noteq> 0 \<longrightarrow>
      byte_count (fst (snd (dma_loop_body sd is_write desc_addr s ram))) < byte_count s"
    using dma_loop_body_decreases[of s sd is_write desc_addr ram]
    by (simp add: word_less_nat_alt)
  have b2: "byte_count (fst (snd (dma_loop_body sd is_write desc_addr s ram))) =
     byte_count s - min (desc_seg_size ram desc_addr) (byte_count s)"
    by (rule dma_loop_body_frame)
  have b3: "fst (dma_loop_body sd is_write desc_addr s ram) =
     fst (snd (aw_h3_sdhost_process_desc sd s ram desc_addr is_write (byte_count s)))"
    by (rule dma_loop_body_parts)
  have b4: "snd (snd (dma_loop_body sd is_write desc_addr s ram)) =
     snd (snd (snd (aw_h3_sdhost_process_desc sd s ram desc_addr is_write (byte_count s))))"
    by (rule dma_loop_body_parts)
  have b5: "sdbus (fst (snd (dma_loop_body sd is_write desc_addr s ram))) =
     sdbus (fst (snd (snd (aw_h3_sdhost_process_desc sd s ram desc_addr is_write (byte_count s)))))"
    by (rule dma_loop_body_parts)
  show ?thesis
    by (intro conjI w1 w2 w3 w4 w5 w6 w7 w8 w9 d1 d2 d3 d4 d5 d6 d7 d8 d9 b1 b2 b3 b4 b5)
qed

text \<open>
  The theorem at the chain of two descriptors without \<open>LAST\<close>, the second of size 0
  and linked to itself, with 10 bytes to transfer: the first pass moves 4 bytes, the second
  \<open>min (65536, 6) = 6\<close>, and the walk stops with \<open>byte_count\<close> 0. It is also
  applied to the size-0 descriptor alone and to the first descriptor in the read
  direction.
\<close>

theorem dma_walk_terminates_witness:
  "byte_count chain_state = 10 \<and> block_size chain_state = 0x200 \<and>
   global_ctl chain_state AND SD_GCTL_DMA_ENB = SD_GCTL_DMA_ENB \<and>
   command chain_state AND SD_CMDR_WRITE = SD_CMDR_WRITE \<and>
   command chain_read_state AND SD_CMDR_WRITE = 0 \<and>
   desc_base chain_state = 0 \<and>
   desc_of_bytes (cpu_physical_memory_read chain_ram 0 16) =
     \<lparr>dstatus = 0, dsize = 4, daddr = 0x100, dnext = 0x20\<rparr> \<and>
   desc_of_bytes (cpu_physical_memory_read chain_ram 0x20 16) =
     \<lparr>dstatus = 0, dsize = 0, daddr = 0x200, dnext = 0x20\<rparr> \<and>
   map (\<lambda>p. (dsize (fst p), dstatus (fst p) AND DESC_STATUS_LAST, dnext (fst p),
             byte_count (fst (snd p)), sdbus (fst (snd p))))
     (dma_walk data_card True 0 chain_state chain_ram) =
     [(4, 0, 0x20, 6, [WriteData 0x11, WriteData 0x11, WriteData 0x11, WriteData 0x11]),
      (65536, 0, 0x20, 0,
       [WriteData 0x11, WriteData 0x11, WriteData 0x11, WriteData 0x11, WriteData 0x22,
      WriteData 0x22, WriteData 0x22, WriteData 0x22, WriteData 0x22, WriteData 0x22])] \<and>
   byte_count (fst (snd (hd (dma_walk data_card True 0 chain_state chain_ram)))) \<noteq> 0 \<and>
   (\<exists>s' ram'. dma_loop data_card True 0 chain_state chain_ram = Some (s', ram') \<and>
      byte_count s' = 0 \<and>
      sdbus s' =
        [WriteData 0x11, WriteData 0x11, WriteData 0x11, WriteData 0x11, WriteData 0x22,
      WriteData 0x22, WriteData 0x22, WriteData 0x22, WriteData 0x22, WriteData 0x22] \<and>
      dsize (desc_of_bytes (cpu_physical_memory_read ram' 0x20 16)) = 65536) \<and>
   (\<exists>s' ram'. aw_h3_sdhost_dma data_card chain_state chain_ram = Some (s', ram') \<and>
      byte_count s' = 0 \<and>
      sdbus s' =
        [WriteData 0x11, WriteData 0x11, WriteData 0x11, WriteData 0x11, WriteData 0x22,
      WriteData 0x22, WriteData 0x22, WriteData 0x22, WriteData 0x22, WriteData 0x22]) \<and>
   fst (aw_h3_sdhost_process_desc data_card chain_state chain_ram 0 True 10) = 4 \<and>
   sdbus (fst (snd (snd (aw_h3_sdhost_process_desc data_card chain_state chain_ram 0 True 10)))) =
     [WriteData 0x11, WriteData 0x11, WriteData 0x11, WriteData 0x11] \<and>
   snd (snd (snd (aw_h3_sdhost_process_desc data_card chain_state chain_ram 0 True 10))) 0x100 = 0x11 \<and>
   byte_count (fst (snd (dma_loop_body data_card True 0 chain_state chain_ram))) < 10 \<and>
   fst (aw_h3_sdhost_process_desc data_card chain_state chain_ram 0x20 True 10) = 10 \<and>
   fst (snd (aw_h3_sdhost_process_desc data_card chain_state chain_ram 0x20 True 10)) =
     \<lparr>dstatus = 0, dsize = 65536, daddr = 0x200, dnext = 0x20\<rparr> \<and>
   fst (aw_h3_sdhost_process_desc data_card chain_read_state chain_ram 0 False 10) = 4 \<and>
   snd (snd (snd (aw_h3_sdhost_process_desc data_card chain_read_state chain_ram 0 False 10))) 0x100 = 0x5A"
proof -
  note W = dma_walk_terminates[where sd = data_card and s = chain_state and ram = chain_ram
      and is_write = True and desc_addr = 0 and max_bytes = 10 and x = "0x100"]
  note Z = dma_walk_terminates[where sd = data_card and s = chain_state and ram = chain_ram
      and is_write = True and desc_addr = "0x20" and max_bytes = 10 and x = "0x100"]
  note R = dma_walk_terminates[where sd = data_card and s = chain_read_state
      and ram = chain_ram and is_write = False and desc_addr = 0 and max_bytes = 10
      and x = "0x100"]
  have st: "byte_count chain_state = 10" "block_size chain_state = 0x200"
    "global_ctl chain_state AND SD_GCTL_DMA_ENB = SD_GCTL_DMA_ENB"
    "command chain_state AND SD_CMDR_WRITE = SD_CMDR_WRITE"
    "command chain_read_state AND SD_CMDR_WRITE = 0" "desc_base chain_state = 0"
    by (simp_all add: chain_state_fields chain_read_state_fields)
  have hyp: "byte_count chain_state \<noteq> 0" "block_size chain_state \<noteq> 0"
    "global_ctl chain_state AND SD_GCTL_DMA_ENB \<noteq> 0"
    "command chain_state AND SD_CMDR_WRITE \<noteq> 0"
    "min (desc_seg_size chain_ram 0) 10 \<le> 1024" "16 \<le> unat (0x100 - 0 :: hwaddr)"
    by (simp_all add: chain_state_fields chain_seg_sizes)
  have loop: "dma_loop data_card True 0 chain_state chain_ram =
      Some (walk_result chain_state chain_ram (dma_walk data_card True 0 chain_state chain_ram))"
    using W by blast
  have first: "byte_count (fst (snd (hd (dma_walk data_card True 0 chain_state chain_ram)))) \<noteq> 0"
    using W chain_walk_first by blast
  have l: "\<exists>s' ram'. dma_loop data_card True 0 chain_state chain_ram = Some (s', ram') \<and>
      byte_count s' = 0 \<and>
      sdbus s' =
        [WriteData 0x11, WriteData 0x11, WriteData 0x11, WriteData 0x11, WriteData 0x22,
      WriteData 0x22, WriteData 0x22, WriteData 0x22, WriteData 0x22, WriteData 0x22] \<and>
      dsize (desc_of_bytes (cpu_physical_memory_read ram' 0x20 16)) = 65536"
    using loop chain_walk_result
      surjective_pairing[of "walk_result chain_state chain_ram (dma_walk data_card True 0 chain_state chain_ram)"]
    by metis
  have "\<exists>s'. aw_h3_sdhost_dma data_card chain_state chain_ram =
        Some (s', snd (walk_result chain_state chain_ram
               (dma_walk data_card (command chain_state AND SD_CMDR_WRITE \<noteq> 0)
                  (ucast (desc_base chain_state)) chain_state chain_ram))) \<and>
      byte_count s' = byte_count (fst (walk_result chain_state chain_ram
               (dma_walk data_card (command chain_state AND SD_CMDR_WRITE \<noteq> 0)
                  (ucast (desc_base chain_state)) chain_state chain_ram))) \<and>
      sdbus s' = sdbus (fst (walk_result chain_state chain_ram
               (dma_walk data_card (command chain_state AND SD_CMDR_WRITE \<noteq> 0)
                  (ucast (desc_base chain_state)) chain_state chain_ram)))"
    using W hyp by blast
  then have d: "\<exists>s' ram'. aw_h3_sdhost_dma data_card chain_state chain_ram = Some (s', ram') \<and>
      byte_count s' = 0 \<and>
      sdbus s' =
        [WriteData 0x11, WriteData 0x11, WriteData 0x11, WriteData 0x11, WriteData 0x22,
      WriteData 0x22, WriteData 0x22, WriteData 0x22, WriteData 0x22, WriteData 0x22]"
    using chain_walk_result by (auto simp: chain_state_fields)
  have n0: "fst (aw_h3_sdhost_process_desc data_card chain_state chain_ram 0 True 10) = 4"
    using W by (simp add: chain_seg_sizes)
  have "sdbus (fst (snd (snd (aw_h3_sdhost_process_desc data_card chain_state chain_ram 0 True 10)))) =
      sdbus chain_state @ map WriteData
        (cpu_physical_memory_read chain_ram
           (ucast (daddr (desc_of_bytes (cpu_physical_memory_read chain_ram 0 16))
                   AND DESC_SIZE_MASK))
           (unat (min (desc_seg_size chain_ram 0) 10)))"
    using W hyp by blast
  then have b0: "sdbus (fst (snd (snd (aw_h3_sdhost_process_desc data_card chain_state chain_ram 0 True 10)))) =
      [WriteData 0x11, WriteData 0x11, WriteData 0x11, WriteData 0x11]"
    by (simp add: chain_state_fields chain_descs chain_seg_sizes chain_data)
  have "snd (snd (snd (aw_h3_sdhost_process_desc data_card chain_state chain_ram 0 True 10))) 0x100 = chain_ram 0x100"
    using W hyp by blast
  then have m0: "snd (snd (snd (aw_h3_sdhost_process_desc data_card chain_state chain_ram 0 True 10))) 0x100 = 0x11"
    by (simp add: chain_ram_def)
  have "byte_count (fst (snd (dma_loop_body data_card True 0 chain_state chain_ram)))
          < byte_count chain_state"
    using W hyp by blast
  then have dec: "byte_count (fst (snd (dma_loop_body data_card True 0 chain_state chain_ram)))
          < 10"
    by (simp add: chain_state_fields)
  have n20: "fst (aw_h3_sdhost_process_desc data_card chain_state chain_ram 0x20 True 10) = 10"
    using Z by (simp add: chain_seg_sizes)
  have "fst (snd (aw_h3_sdhost_process_desc data_card chain_state chain_ram 0x20 True 10)) =
     (desc_of_bytes (cpu_physical_memory_read chain_ram 0x20 16))
       \<lparr>dstatus := dstatus (desc_of_bytes (cpu_physical_memory_read chain_ram 0x20 16))
                    AND NOT DESC_STATUS_HOLD,
        dsize := desc_seg_size chain_ram 0x20\<rparr>"
    using Z by blast
  then have d20: "fst (snd (aw_h3_sdhost_process_desc data_card chain_state chain_ram 0x20 True 10)) =
     \<lparr>dstatus = 0, dsize = 65536, daddr = 0x200, dnext = 0x20\<rparr>"
    by (simp add: chain_descs chain_seg_sizes)
  have nr: "fst (aw_h3_sdhost_process_desc data_card chain_read_state chain_ram 0 False 10) = 4"
    using R by (simp add: chain_seg_sizes)
  have "snd (snd (snd (aw_h3_sdhost_process_desc data_card chain_read_state chain_ram 0 False 10))) 0x100 =
        (if unat ((0x100 :: hwaddr) - ucast (daddr (desc_of_bytes (cpu_physical_memory_read chain_ram 0 16))
                                 AND DESC_SIZE_MASK))
              < unat (min (desc_seg_size chain_ram 0) 10)
         then fst (sdbus_read_buf data_card (unat (min (desc_seg_size chain_ram 0) 10))
                     (sdbus chain_read_state)) !
                unat ((0x100 :: hwaddr) - ucast (daddr (desc_of_bytes
                                       (cpu_physical_memory_read chain_ram 0 16))
                                     AND DESC_SIZE_MASK))
         else chain_ram 0x100)"
    using R hyp by blast
  then have mr: "snd (snd (snd (aw_h3_sdhost_process_desc data_card chain_read_state chain_ram 0 False 10))) 0x100 = 0x5A"
    by (simp add: chain_descs chain_seg_sizes chain_read_state_fields data_card_read_buf)
  show ?thesis
    by (intro conjI st chain_descs chain_walk_eval first l d n0 b0 m0 dec n20 d20 nr mr)
qed

text \<open>
  C9. A DMA walk that passes the entry conditions (\<open>byte_count\<close> and \<open>block_size\<close>
  not 0, \<open>DMA_ENB\<close> set, and for a read data ready on the bus) returns with
  \<open>DATA_COMPLETE\<close> and \<open>AUTOCMD_DONE\<close> set in \<open>irq_status\<close> and with
  \<open>TRANSMIT_IRQ\<close> (write) or \<open>RECEIVE_IRQ\<close> and \<open>SUM_RECEIVE_IRQ\<close> (read)
  set in \<open>dmac_status\<close>, whatever guest memory holds: no descriptor flag,
  \<open>NOIRQ\<close> included, can prevent it.
\<close>

theorem dma_completion_ignores_noirq:
  assumes "byte_count s \<noteq> 0" "block_size s \<noteq> 0" "global_ctl s AND SD_GCTL_DMA_ENB \<noteq> 0"
    and "command s AND SD_CMDR_WRITE \<noteq> 0 \<or> sdbus_data_ready sd (sdbus s)"
  shows "\<exists>s' ram'. aw_h3_sdhost_dma sd s ram = Some (s', ram') \<and>
     irq_status s' AND (SD_RISR_DATA_COMPLETE OR SD_RISR_AUTOCMD_DONE) =
       SD_RISR_DATA_COMPLETE OR SD_RISR_AUTOCMD_DONE \<and>
     (if command s AND SD_CMDR_WRITE \<noteq> 0
      then dmac_status s' AND SD_IDST_TRANSMIT_IRQ = SD_IDST_TRANSMIT_IRQ
      else dmac_status s' AND (SD_IDST_RECEIVE_IRQ OR SD_IDST_SUM_RECEIVE_IRQ) =
             SD_IDST_RECEIVE_IRQ OR SD_IDST_SUM_RECEIVE_IRQ)"
proof -
  from dma_completion[OF assms, of ram] obtain s1 ram' where
    eq: "aw_h3_sdhost_dma sd s ram =
       Some (s1\<lparr>irq_status := irq_status s1 OR (SD_RISR_DATA_COMPLETE OR SD_RISR_AUTOCMD_DONE),
                dmac_status := dmac_status s1 OR
                  (if command s AND SD_CMDR_WRITE \<noteq> 0 then SD_IDST_TRANSMIT_IRQ
                   else SD_IDST_SUM_RECEIVE_IRQ OR SD_IDST_RECEIVE_IRQ)\<rparr>, ram')"
    by blast
  show ?thesis
    unfolding eq
    using or_and_absorb[of "irq_status s1" "0x4008"] or_and_absorb[of "dmac_status s1" 1]
      or_and_absorb[of "dmac_status s1" "0x102"]
    by simp
qed

text \<open>
  The theorem at a DMA write of 4 bytes whose only descriptor has \<open>NOIRQ\<close> set.
\<close>

theorem dma_completion_ignores_noirq_witness:
  "byte_count dma_write_state \<noteq> 0 \<and> block_size dma_write_state \<noteq> 0 \<and>
   global_ctl dma_write_state AND SD_GCTL_DMA_ENB \<noteq> 0 \<and>
   command dma_write_state AND SD_CMDR_WRITE \<noteq> 0 \<and>
   desc_base dma_write_state = 0 \<and>
   dstatus (desc_of_bytes (cpu_physical_memory_read noirq_ram 0 16)) AND DESC_STATUS_NOIRQ \<noteq> 0 \<and>
   (\<exists>s' ram'. aw_h3_sdhost_dma no_card dma_write_state noirq_ram = Some (s', ram') \<and>
      irq_status s' AND (SD_RISR_DATA_COMPLETE OR SD_RISR_AUTOCMD_DONE) =
        SD_RISR_DATA_COMPLETE OR SD_RISR_AUTOCMD_DONE \<and>
      dmac_status s' AND SD_IDST_TRANSMIT_IRQ = SD_IDST_TRANSMIT_IRQ)"
proof -
  have h: "byte_count dma_write_state \<noteq> 0" "block_size dma_write_state \<noteq> 0"
    "global_ctl dma_write_state AND SD_GCTL_DMA_ENB \<noteq> 0"
    "command dma_write_state AND SD_CMDR_WRITE \<noteq> 0" "desc_base dma_write_state = 0"
    by (simp_all add: dma_write_state_def aw_h3_sdhost_reset_def zeroed_state_def)
  have d: "dstatus (desc_of_bytes (cpu_physical_memory_read noirq_ram 0 16))
             AND DESC_STATUS_NOIRQ \<noteq> 0"
    by (simp add: desc_of_bytes_def cpu_physical_memory_read_def noirq_ram_def le32_def upt_rec)
  show ?thesis
    using h d dma_completion_ignores_noirq[of dma_write_state no_card noirq_ram]
    by simp
qed

end
